theory Spec2Isabelle
  imports Main "HOL-Library.Sublist" "HOL-Library.Char_ord" "HOL-Library.List_Lexorder"
begin

text \<open>
  A model of the two scripts that make and check a skill package, \<open>init_skill.py\<close> and
  \<open>validate_skill.py\<close>: the name normalizer, the parser of the resource selection, the
  generator over a file system, and the validator with its verdicts. The functions keep
  the names of the source; a \<open>print\<close> is a constructor in the output, an exception is a
  value, and the libraries the scripts call without owning them are parameters.
\<close>

section \<open>Python strings\<close>

text \<open>
  A Python \<open>str\<close> is modelled as a \<^typ>\<open>string\<close>, one \<^typ>\<open>char\<close> per character.
  The character classes below are Python's on the ASCII range (\<open>str.islower\<close>,
  \<open>str.isdigit\<close>, \<open>str.isspace\<close>, \<open>str.lower\<close>, \<open>str.upper\<close>); characters from 128 on are
  taken to be caseless, neither digit nor white space. \<open>s.startswith(p)\<close> is
  \<^term>\<open>prefix p s\<close> and \<open>p in s\<close> on two strings is \<^term>\<open>sublist p s\<close>.
\<close>

definition ascii_lowercase :: string where
  "ascii_lowercase = ''abcdefghijklmnopqrstuvwxyz''"

definition ascii_uppercase :: string where
  "ascii_uppercase = ''ABCDEFGHIJKLMNOPQRSTUVWXYZ''"

definition ascii_digits :: string where
  "ascii_digits = ''0123456789''"

definition ascii_whitespace :: string where
  "ascii_whitespace =
     [CHR 0x09, CHR 0x0A, CHR 0x0B, CHR 0x0C, CHR 0x0D,
      CHR 0x1C, CHR 0x1D, CHR 0x1E, CHR 0x1F, CHR 0x20]"

definition c_islower :: "char \<Rightarrow> bool" where
  "c_islower c = (c \<in> set ascii_lowercase)"

definition c_isupper :: "char \<Rightarrow> bool" where
  "c_isupper c = (c \<in> set ascii_uppercase)"

definition c_isdigit :: "char \<Rightarrow> bool" where
  "c_isdigit c = (c \<in> set ascii_digits)"

definition c_isspace :: "char \<Rightarrow> bool" where
  "c_isspace c = (c \<in> set ascii_whitespace)"

definition c_lower :: "char \<Rightarrow> char" where
  "c_lower c = (case map_of (zip ascii_uppercase ascii_lowercase) c of
                  Some l \<Rightarrow> l | None \<Rightarrow> c)"

definition c_upper :: "char \<Rightarrow> char" where
  "c_upper c = (case map_of (zip ascii_lowercase ascii_uppercase) c of
                  Some u \<Rightarrow> u | None \<Rightarrow> c)"

definition lower :: "string \<Rightarrow> string" where
  "lower s = map c_lower s"

text \<open>\<open>s.strip(chars)\<close>: the characters of the class are removed from both ends.\<close>

definition strip_class :: "(char \<Rightarrow> bool) \<Rightarrow> string \<Rightarrow> string" where
  "strip_class P s = rev (dropWhile P (rev (dropWhile P s)))"

definition strip :: "string \<Rightarrow> string" where
  "strip s = strip_class c_isspace s"

text \<open>
  \<open>re.sub\<close> with a pattern that is one character class repeated at least \<open>k\<close> times
  (\<open>[^a-z0-9]+\<close> has \<open>k = 1\<close>, \<open>-{2,}\<close> has \<open>k = 2\<close>): the scan goes left to right, a
  match is greedy, so every maximal run of the class of length at least \<open>k\<close> is replaced
  and a shorter run is kept.
\<close>

function re_sub_run :: "(char \<Rightarrow> bool) \<Rightarrow> nat \<Rightarrow> string \<Rightarrow> string \<Rightarrow> string" where
  "re_sub_run P k repl [] = []"
| "re_sub_run P k repl (c # cs) =
     (if P c then
        (if k \<le> Suc (length (takeWhile P cs)) then repl else c # takeWhile P cs)
          @ re_sub_run P k repl (dropWhile P cs)
      else c # re_sub_run P k repl cs)"
  by pat_completeness auto
termination
  by (relation "measure (\<lambda>(P, k, repl, s). length s)")
     (auto simp: length_dropWhile_le less_Suc_eq_le)

text \<open>
  \<open>s.partition(sep)\<close> for a non-empty separator: the text before the leftmost occurrence
  of \<open>sep\<close> and the text after it, or \<open>None\<close> when \<open>sep\<close> does not occur.
\<close>

fun str_partition :: "string \<Rightarrow> string \<Rightarrow> (string \<times> string) option" where
  "str_partition sep [] = (if sep = [] then Some ([], []) else None)"
| "str_partition sep (c # cs) =
     (if prefix sep (c # cs) then Some ([], drop (length sep) (c # cs))
      else (case str_partition sep cs of
              None \<Rightarrow> None
            | Some (before, after) \<Rightarrow> Some (c # before, after)))"

text \<open>
  \<open>s.split(sep, maxsplit)\<close> cuts at the leftmost occurrences, at most \<open>maxsplit\<close> of
  them, each search starting where the last occurrence ended. \<open>s.split(sep)\<close> has no
  limit: no string has more occurrences of a non-empty separator than characters.
\<close>

fun split_max :: "string \<Rightarrow> nat \<Rightarrow> string \<Rightarrow> string list" where
  "split_max sep 0 s = [s]"
| "split_max sep (Suc n) s =
     (case str_partition sep s of
        None \<Rightarrow> [s]
      | Some (before, after) \<Rightarrow> before # split_max sep n after)"

definition split :: "string \<Rightarrow> string \<Rightarrow> string list" where
  "split sep s = split_max sep (length s) s"

fun join :: "string \<Rightarrow> string list \<Rightarrow> string" where
  "join sep [] = []"
| "join sep [x] = x"
| "join sep (x # y # ys) = x @ sep @ join sep (y # ys)"

text \<open>\<open>s.count(sub)\<close> counts the occurrences that \<open>split\<close> cuts at.\<close>

definition count :: "string \<Rightarrow> string \<Rightarrow> nat" where
  "count sub s = length (split sub s) - 1"

definition replace :: "string \<Rightarrow> string \<Rightarrow> string \<Rightarrow> string" where
  "replace old new s = join new (split old s)"

fun capitalize :: "string \<Rightarrow> string" where
  "capitalize [] = []"
| "capitalize (c # cs) = c_upper c # map c_lower cs"

section \<open>The name normalizer (\<open>init_skill.py\<close>)\<close>

definition MAX_SKILL_NAME_LENGTH :: nat where
  "MAX_SKILL_NAME_LENGTH = 64"

definition az09 :: "char \<Rightarrow> bool" where
  "az09 c = (c \<in> set ascii_lowercase \<or> c \<in> set ascii_digits)"

definition is_hyphen :: "char \<Rightarrow> bool" where
  "is_hyphen c = (c = CHR ''-'')"

definition normalize_skill_name :: "string \<Rightarrow> string" where
  "normalize_skill_name skill_name =
     (let normalized = lower (strip skill_name);
          normalized = re_sub_run (\<lambda>c. \<not> az09 c) 1 ''-'' normalized;
          normalized = strip_class is_hyphen normalized;
          normalized = re_sub_run is_hyphen 2 ''-'' normalized
      in normalized)"

definition title_case_skill_name :: "string \<Rightarrow> string" where
  "title_case_skill_name skill_name = join '' '' (map capitalize (split ''-'' skill_name))"

text \<open>
  The Skill Identifier grammar, in the words of the specification: non-empty, lowercase
  ASCII letters, digits and hyphens only, no leading, trailing or consecutive hyphens,
  length at most 64. No function of the source computes it; the normalizer and the
  validator are compared with it.
\<close>

definition spec_skill_identifier :: "string \<Rightarrow> bool" where
  "spec_skill_identifier s \<longleftrightarrow>
     s \<noteq> [] \<and> set s \<subseteq> set (ascii_lowercase @ ascii_digits @ ''-'') \<and>
     \<not> prefix ''-'' s \<and> \<not> suffix ''-'' s \<and> \<not> sublist ''--'' s \<and> length s \<le> 64"

section \<open>Resource selection (\<open>init_skill.py\<close>)\<close>

definition ALLOWED_RESOURCES :: "string set" where
  "ALLOWED_RESOURCES = {''scripts'', ''references'', ''assets''}"

text \<open>The exceptions of the file operations; \<open>init_skill\<close> catches them and prints them.\<close>

datatype io_error = FileExistsError | FileNotFoundError | NotADirectoryError | IsADirectoryError

text \<open>
  The lines the generator prints, one constructor for each \<open>print\<close> call (or group of
  calls that always go together), carrying the values the line interpolates.
\<close>

datatype gen_msg =
    ErrNoLetterOrDigit
  | ErrTooLong string nat nat
  | NoteNormalized string string
  | ErrUnknownResources "string list" "string list"
  | ErrExamplesNeedResources
  | Initializing string "string list" "string list" bool
  | ErrAlreadyExists "string list"
  | OkCreatedDir "string list"
  | ErrCreatingDir io_error
  | OkCreatedSkillMd
  | ErrCreatingSkillMd io_error
  | OkCreated string
  | ErrCreatingResources io_error
  | OkInitialized string "string list"

text \<open>The loop of \<open>parse_resources\<close> that drops repeated entries.\<close>

fun dedup_loop :: "string list \<Rightarrow> string set \<Rightarrow> string list \<Rightarrow> string list" where
  "dedup_loop deduped seen [] = deduped"
| "dedup_loop deduped seen (resource # rest) =
     (if resource \<notin> seen
      then dedup_loop (deduped @ [resource]) (insert resource seen) rest
      else dedup_loop deduped seen rest)"

text \<open>
  \<open>parse_resources\<close>: \<open>Inl\<close> is the path that prints the unknown entries and the allowed
  ones and leaves through \<open>sys.exit(1)\<close>.
\<close>

definition parse_resources :: "string \<Rightarrow> gen_msg + string list" where
  "parse_resources raw_resources =
     (if raw_resources = [] then Inr []
      else
        let resources = [strip item. item \<leftarrow> split '','' raw_resources, strip item \<noteq> []];
            invalid = sorted_list_of_set {item \<in> set resources. item \<notin> ALLOWED_RESOURCES}
        in if invalid \<noteq> []
           then Inl (ErrUnknownResources invalid (sorted_list_of_set ALLOWED_RESOURCES))
           else Inr (dedup_loop [] {} resources))"

section \<open>The file system\<close>

text \<open>
  A path is the list of its components below the root, already resolved; a name is one
  component. The file system maps a path to a directory or to a file with its text and
  its executable bit. There are no permissions, links or quotas, so an operation fails
  only for a reason of structure.
\<close>

type_synonym path = "string list"

datatype node = Dir | File string bool

type_synonym fs = "path \<Rightarrow> node option"

definition node_at :: "fs \<Rightarrow> path \<Rightarrow> node option" where
  "node_at fs p = (if p = [] then Some Dir else fs p)"

definition exists :: "fs \<Rightarrow> path \<Rightarrow> bool" where
  "exists fs p = (node_at fs p \<noteq> None)"

definition is_dir :: "fs \<Rightarrow> path \<Rightarrow> bool" where
  "is_dir fs p = (node_at fs p = Some Dir)"

definition path_name :: "path \<Rightarrow> string" where
  "path_name p = (if p = [] then [] else last p)"

definition ancestors :: "path \<Rightarrow> path list" where
  "ancestors p = map (\<lambda>n. take n p) [0..<length p]"

text \<open>\<open>Path.mkdir(parents=True, exist_ok=False)\<close>.\<close>

definition mkdir_parents :: "fs \<Rightarrow> path \<Rightarrow> io_error + fs" where
  "mkdir_parents fs p =
     (if exists fs p then Inl FileExistsError
      else if \<exists>a \<in> set (ancestors p). exists fs a \<and> \<not> is_dir fs a then Inl NotADirectoryError
      else Inr (\<lambda>q. if q \<in> set (ancestors p) \<or> q = p
                     then (case fs q of None \<Rightarrow> Some Dir | Some n \<Rightarrow> Some n)
                     else fs q))"

text \<open>\<open>Path.mkdir(exist_ok=True)\<close>, without \<open>parents\<close>.\<close>

definition mkdir_exist_ok :: "fs \<Rightarrow> path \<Rightarrow> io_error + fs" where
  "mkdir_exist_ok fs p =
     (case node_at fs p of
        Some Dir \<Rightarrow> Inr fs
      | Some (File _ _) \<Rightarrow> Inl FileExistsError
      | None \<Rightarrow>
          (case node_at fs (butlast p) of
             Some Dir \<Rightarrow> Inr (fs(p \<mapsto> Dir))
           | Some (File _ _) \<Rightarrow> Inl NotADirectoryError
           | None \<Rightarrow> Inl FileNotFoundError))"

definition write_text :: "fs \<Rightarrow> path \<Rightarrow> string \<Rightarrow> io_error + fs" where
  "write_text fs p text =
     (case node_at fs (butlast p) of
        None \<Rightarrow> Inl FileNotFoundError
      | Some (File _ _) \<Rightarrow> Inl NotADirectoryError
      | Some Dir \<Rightarrow>
          (case node_at fs p of
             Some Dir \<Rightarrow> Inl IsADirectoryError
           | Some (File _ x) \<Rightarrow> Inr (fs(p \<mapsto> File text x))
           | None \<Rightarrow> Inr (fs(p \<mapsto> File text False))))"

definition chmod_755 :: "fs \<Rightarrow> path \<Rightarrow> io_error + fs" where
  "chmod_755 fs p =
     (case node_at fs p of
        Some (File text _) \<Rightarrow> Inr (fs(p \<mapsto> File text True))
      | Some Dir \<Rightarrow> Inr fs
      | None \<Rightarrow> Inl FileNotFoundError)"

definition read_text :: "fs \<Rightarrow> path \<Rightarrow> io_error + string" where
  "read_text fs p =
     (case node_at fs p of
        Some (File text _) \<Rightarrow> Inr text
      | Some Dir \<Rightarrow> Inl IsADirectoryError
      | None \<Rightarrow> Inl FileNotFoundError)"

section \<open>The templates (\<open>init_skill.py\<close>)\<close>

text \<open>
  \<open>SKILL_TEMPLATE.format(skill_name=..., skill_title=..., timestamp=...)\<close>, written as the
  text between the two delimiter lines and the text after them.
\<close>

definition TEMPLATE_FRONTMATTER :: "string \<Rightarrow> string \<Rightarrow> string \<Rightarrow> string" where
  \<open>TEMPLATE_FRONTMATTER skill_name skill_title timestamp =
     ''id: '' @ skill_name @ ''\<newline>'' @
     ''name: '' @ skill_title @ ''\<newline>'' @
     ''description: [TODO: Describe what this skill does and WHEN to use it. This is critical for skill triggering. Include specific scenarios, file types, or tasks that should trigger this skill.]\<newline>'' @
     ''category: [TODO: e.g., development, document, system, etc.]\<newline>'' @
     ''tags:\<newline>'' @
     ''  - [TODO: tag1]\<newline>'' @
     ''  - [TODO: tag2]\<newline>'' @
     ''tool_refs: []\<newline>'' @
     ''workflow_refs: []\<newline>'' @
     ''visibility: public\<newline>'' @
     ''version: "1.0.0"\<newline>'' @
     ''created_at: "'' @ timestamp @ ''"\<newline>'' @
     ''updated_at: "'' @ timestamp @ ''"''\<close>

definition TEMPLATE_BODY :: "string \<Rightarrow> string" where
  \<open>TEMPLATE_BODY skill_title =
     ''\<newline>'' @
     ''# '' @ skill_title @ ''\<newline>'' @
     ''\<newline>'' @
     ''## Overview\<newline>'' @
     ''\<newline>'' @
     ''[TODO: 1-2 sentences explaining what this skill enables]\<newline>'' @
     ''\<newline>'' @
     ''## When to Use\<newline>'' @
     ''\<newline>'' @
     ''[TODO: Specific scenarios that trigger this skill. Examples:\<newline>'' @
     ''- "Use this skill when working with PDF files"\<newline>'' @
     ''- "Use this skill for code review tasks"\<newline>'' @
     ''- "Use this skill when analyzing database schemas"\<newline>'' @
     '']\<newline>'' @
     ''\<newline>'' @
     ''## Workflow\<newline>'' @
     ''\<newline>'' @
     ''[TODO: Describe the workflow for using this skill]\<newline>'' @
     ''\<newline>'' @
     ''### Step 1: [First step]\<newline>'' @
     ''\<newline>'' @
     ''[Instructions and examples]\<newline>'' @
     ''\<newline>'' @
     ''### Step 2: [Second step]\<newline>'' @
     ''\<newline>'' @
     ''[Instructions and examples]\<newline>'' @
     ''\<newline>'' @
     ''## Resources\<newline>'' @
     ''\<newline>'' @
     ''[TODO: Reference bundled resources if applicable]\<newline>'' @
     ''\<newline>'' @
     ''### scripts/\<newline>'' @
     ''- `scripts/example.py` - [Description of what this script does]\<newline>'' @
     ''\<newline>'' @
     ''### references/\<newline>'' @
     ''- `references/guide.md` - [Description of reference documentation]\<newline>'' @
     ''\<newline>'' @
     ''### assets/\<newline>'' @
     ''- `assets/template.txt` - [Description of asset files]\<newline>'' @
     ''\<newline>'' @
     ''---\<newline>'' @
     ''\<newline>'' @
     ''**Delete TODO sections as you complete them**\<newline>''\<close>

definition SKILL_TEMPLATE :: "string \<Rightarrow> string \<Rightarrow> string \<Rightarrow> string" where
  "SKILL_TEMPLATE skill_name skill_title timestamp =
     ''---'' @ ''\<newline>'' @ TEMPLATE_FRONTMATTER skill_name skill_title timestamp @ ''\<newline>'' @
     ''---'' @ ''\<newline>'' @ TEMPLATE_BODY skill_title"

definition EXAMPLE_SCRIPT :: "string \<Rightarrow> string" where
  \<open>EXAMPLE_SCRIPT skill_name =
     ''#!/usr/bin/env python3\<newline>'' @
     ''"""\<newline>'' @
     ''Example helper script for '' @ skill_name @ ''\<newline>'' @
     ''\<newline>'' @
     ''This is a placeholder script. Replace with actual implementation or delete.\<newline>'' @
     ''\<newline>'' @
     ''Usage:\<newline>'' @
     ''    python3 example.py <input> <output>\<newline>'' @
     ''"""\<newline>'' @
     ''\<newline>'' @
     ''import argparse\<newline>'' @
     ''\<newline>'' @
     ''\<newline>'' @
     ''def main():\<newline>'' @
     ''    parser = argparse.ArgumentParser(description="Example script for '' @ skill_name @ ''")\<newline>'' @
     ''    parser.add_argument("input", help="Input file")\<newline>'' @
     ''    parser.add_argument("output", help="Output file")\<newline>'' @
     ''    args = parser.parse_args()\<newline>'' @
     ''\<newline>'' @
     ''    # TODO: Add actual script logic here\<newline>'' @
     ''    print(f"Processing {args.input} -> {args.output}")\<newline>'' @
     ''\<newline>'' @
     ''\<newline>'' @
     ''if __name__ == "__main__":\<newline>'' @
     ''    main()\<newline>''\<close>

definition EXAMPLE_REFERENCE :: "string \<Rightarrow> string" where
  \<open>EXAMPLE_REFERENCE skill_title =
     ''# Reference Guide for '' @ skill_title @ ''\<newline>'' @
     ''\<newline>'' @
     ''This is placeholder reference documentation. Replace with actual content or delete.\<newline>'' @
     ''\<newline>'' @
     ''## Purpose\<newline>'' @
     ''\<newline>'' @
     ''[Describe what information this reference contains]\<newline>'' @
     ''\<newline>'' @
     ''## When to Read This\<newline>'' @
     ''\<newline>'' @
     ''[Specify when this reference should be loaded into context]\<newline>'' @
     ''\<newline>'' @
     ''## Content\<newline>'' @
     ''\<newline>'' @
     ''[Detailed reference information]\<newline>'' @
     ''\<newline>'' @
     ''## Examples\<newline>'' @
     ''\<newline>'' @
     ''[Concrete examples if applicable]\<newline>''\<close>

definition EXAMPLE_ASSET :: string where
  \<open>EXAMPLE_ASSET =
     ''# Example Asset\<newline>'' @
     ''\<newline>'' @
     ''This placeholder represents asset files stored in the assets/ directory.\<newline>'' @
     ''\<newline>'' @
     ''Asset files are NOT loaded into context but are used in the output.\<newline>'' @
     ''\<newline>'' @
     ''Examples:\<newline>'' @
     ''- Templates (pptx, docx)\<newline>'' @
     ''- Images (png, jpg, svg)\<newline>'' @
     ''- Fonts (ttf, woff2)\<newline>'' @
     ''- Boilerplate code directories\<newline>'' @
     ''\<newline>'' @
     ''Replace this file with actual assets or delete if not needed.\<newline>''\<close>

section \<open>The generator (\<open>init_skill.py\<close>)\<close>

text \<open>
  The reading of the clock, \<open>datetime.now(timezone.utc)\<close>, is an input of the model;
  \<open>strftime("%Y-%m-%dT%H:%M:%SZ")\<close> writes it with zero-padded decimal fields.
\<close>

record utc_time =
  year :: nat
  month :: nat
  day :: nat
  hour :: nat
  minute :: nat
  second :: nat

definition digit :: "nat \<Rightarrow> char" where
  "digit n = ascii_digits ! (n mod 10)"

definition zero_pad :: "nat \<Rightarrow> nat \<Rightarrow> string" where
  "zero_pad w n = map (\<lambda>i. digit (n div 10 ^ i)) (rev [0..<w])"

definition strftime :: "utc_time \<Rightarrow> string" where
  "strftime now =
     zero_pad 4 (year now) @ ''-'' @ zero_pad 2 (month now) @ ''-'' @ zero_pad 2 (day now) @
     ''T'' @ zero_pad 2 (hour now) @ '':'' @ zero_pad 2 (minute now) @ '':'' @
     zero_pad 2 (second now) @ ''Z''"

text \<open>
  The body of the loop of \<open>create_resource_dirs\<close> after the directory is made. A
  result is the lines printed, the file system reached and the exception that ended
  the work, if any: what was written before an exception stays written.
\<close>

definition populate_resource ::
  "path \<Rightarrow> string \<Rightarrow> string \<Rightarrow> string \<Rightarrow> bool \<Rightarrow> fs \<Rightarrow> gen_msg list \<times> fs \<times> io_error option" where
  "populate_resource resource_dir resource skill_name skill_title include_examples fs =
     (if resource = ''scripts'' then
        (if include_examples then
           (case write_text fs (resource_dir @ [''example.py'']) (EXAMPLE_SCRIPT skill_name) of
              Inl e \<Rightarrow> ([], fs, Some e)
            | Inr fs1 \<Rightarrow>
                (case chmod_755 fs1 (resource_dir @ [''example.py'']) of
                   Inl e \<Rightarrow> ([], fs1, Some e)
                 | Inr fs2 \<Rightarrow> ([OkCreated ''scripts/example.py''], fs2, None)))
         else ([OkCreated ''scripts/''], fs, None))
      else if resource = ''references'' then
        (if include_examples then
           (case write_text fs (resource_dir @ [''guide.md'']) (EXAMPLE_REFERENCE skill_title) of
              Inl e \<Rightarrow> ([], fs, Some e)
            | Inr fs1 \<Rightarrow> ([OkCreated ''references/guide.md''], fs1, None))
         else ([OkCreated ''references/''], fs, None))
      else if resource = ''assets'' then
        (if include_examples then
           (case write_text fs (resource_dir @ [''example.txt'']) EXAMPLE_ASSET of
              Inl e \<Rightarrow> ([], fs, Some e)
            | Inr fs1 \<Rightarrow> ([OkCreated ''assets/example.txt''], fs1, None))
         else ([OkCreated ''assets/''], fs, None))
      else ([], fs, None))"

fun create_resource_dirs ::
  "path \<Rightarrow> string \<Rightarrow> string \<Rightarrow> string list \<Rightarrow> bool \<Rightarrow> fs \<Rightarrow> gen_msg list \<times> fs \<times> io_error option" where
  "create_resource_dirs skill_dir skill_name skill_title [] include_examples fs = ([], fs, None)"
| "create_resource_dirs skill_dir skill_name skill_title (resource # rest) include_examples fs =
     (case mkdir_exist_ok fs (skill_dir @ [resource]) of
        Inl e \<Rightarrow> ([], fs, Some e)
      | Inr fs1 \<Rightarrow>
          (case populate_resource (skill_dir @ [resource]) resource skill_name skill_title
                  include_examples fs1 of
             (out, fs2, Some e) \<Rightarrow> (out, fs2, Some e)
           | (out, fs2, None) \<Rightarrow>
               (case create_resource_dirs skill_dir skill_name skill_title rest
                       include_examples fs2 of
                  (out', fs3, r) \<Rightarrow> (out @ out', fs3, r))))"

text \<open>
  \<open>init_skill\<close> returns the directory made, or \<open>None\<close>; the model adds the lines printed
  and the file system reached.
\<close>

definition init_skill ::
  "string \<Rightarrow> path \<Rightarrow> string list \<Rightarrow> bool \<Rightarrow> utc_time \<Rightarrow> fs \<Rightarrow> path option \<times> gen_msg list \<times> fs" where
  "init_skill skill_name path resources include_examples now fs =
     (let skill_dir = path @ [skill_name] in
      if exists fs skill_dir then (None, [ErrAlreadyExists skill_dir], fs)
      else
        (case mkdir_parents fs skill_dir of
           Inl e \<Rightarrow> (None, [ErrCreatingDir e], fs)
         | Inr fs1 \<Rightarrow>
             (let skill_title = title_case_skill_name skill_name;
                  timestamp = strftime now;
                  skill_content = SKILL_TEMPLATE skill_name skill_title timestamp;
                  skill_md_path = skill_dir @ [''SKILL.md'']
              in case write_text fs1 skill_md_path skill_content of
                   Inl e \<Rightarrow> (None, [OkCreatedDir skill_dir, ErrCreatingSkillMd e], fs1)
                 | Inr fs2 \<Rightarrow>
                     (case (if resources \<noteq> []
                            then create_resource_dirs skill_dir skill_name skill_title
                                   resources include_examples fs2
                            else ([], fs2, None)) of
                        (out, fs3, Some e) \<Rightarrow>
                          (None,
                           [OkCreatedDir skill_dir, OkCreatedSkillMd] @ out
                             @ [ErrCreatingResources e], fs3)
                      | (out, fs3, None) \<Rightarrow>
                          (Some skill_dir,
                           [OkCreatedDir skill_dir, OkCreatedSkillMd] @ out
                             @ [OkInitialized skill_name skill_dir], fs3)))))"

text \<open>
  \<open>main\<close> of \<open>init_skill.py\<close>, from the parsed arguments on: the exit status, the lines
  printed and the file system reached.
\<close>

definition init_main ::
  "string \<Rightarrow> path \<Rightarrow> string \<Rightarrow> bool \<Rightarrow> utc_time \<Rightarrow> fs \<Rightarrow> nat \<times> gen_msg list \<times> fs" where
  "init_main raw_skill_name path raw_resources examples now fs =
     (let skill_name = normalize_skill_name raw_skill_name in
      if skill_name = [] then (1, [ErrNoLetterOrDigit], fs)
      else if length skill_name > MAX_SKILL_NAME_LENGTH
      then (1, [ErrTooLong skill_name (length skill_name) MAX_SKILL_NAME_LENGTH], fs)
      else
        (let note = (if skill_name \<noteq> raw_skill_name
                     then [NoteNormalized raw_skill_name skill_name] else [])
         in case parse_resources raw_resources of
              Inl e \<Rightarrow> (1, note @ [e], fs)
            | Inr resources \<Rightarrow>
                (if examples \<and> resources = [] then (1, note @ [ErrExamplesNeedResources], fs)
                 else
                   (case init_skill skill_name path resources examples now fs of
                      (result, out, fs') \<Rightarrow>
                        (if result \<noteq> None then 0 else 1,
                         note @ [Initializing skill_name path resources examples] @ out,
                         fs')))))"

section \<open>The validator (\<open>validate_skill.py\<close>)\<close>

subsection \<open>Values read from the frontmatter\<close>

text \<open>
  What \<open>yaml.safe_load\<close> returns: \<open>None\<close>, a \<open>bool\<close>, an \<open>int\<close>, a \<open>str\<close>, a \<open>list\<close> or a
  \<open>dict\<close> (in the order of its keys). Floats, dates, binaries and sets are left out.
  The validator applies to such a value operations that exist for some of these types
  only; where Python raises, the model returns the exception, and none of them is
  caught in \<open>validate_skill\<close>.
\<close>

datatype yaml =
    YNull
  | YBool bool
  | YInt int
  | YStr string
  | YList "yaml list"
  | YMap "(yaml \<times> yaml) list"

datatype py_exn = TypeError | AttributeError | KeyError | IndexError

definition and_then :: "'e + 'a \<Rightarrow> ('a \<Rightarrow> 'e + 'b) \<Rightarrow> 'e + 'b" where
  "and_then r f = (case r of Inl e \<Rightarrow> Inl e | Inr x \<Rightarrow> f x)"

text \<open>\<open>v == s\<close> and \<open>v == k\<close> for a string \<open>s\<close> and an integer \<open>k\<close>.\<close>

fun eq_str :: "yaml \<Rightarrow> string \<Rightarrow> bool" where
  "eq_str (YStr t) s = (t = s)"
| "eq_str _ s = False"

fun eq_int :: "yaml \<Rightarrow> int \<Rightarrow> bool" where
  "eq_int (YInt n) k = (n = k)"
| "eq_int (YBool b) k = ((if b then 1 else 0) = k)"
| "eq_int _ k = False"

text \<open>\<open>not v\<close> is \<open>\<not> truthy v\<close>.\<close>

fun truthy :: "yaml \<Rightarrow> bool" where
  "truthy YNull = False"
| "truthy (YBool b) = b"
| "truthy (YInt n) = (n \<noteq> 0)"
| "truthy (YStr s) = (s \<noteq> [])"
| "truthy (YList xs) = (xs \<noteq> [])"
| "truthy (YMap kvs) = (kvs \<noteq> [])"

text \<open>\<open>v[0]\<close>.\<close>

fun subscript0 :: "yaml \<Rightarrow> py_exn + yaml" where
  "subscript0 (YStr s) = (case s of [] \<Rightarrow> Inl IndexError | c # _ \<Rightarrow> Inr (YStr [c]))"
| "subscript0 (YList xs) = (case xs of [] \<Rightarrow> Inl IndexError | x # _ \<Rightarrow> Inr x)"
| "subscript0 (YMap kvs) =
     (case filter (\<lambda>(k, v). eq_int k 0) kvs of [] \<Rightarrow> Inl KeyError | (k, v) # _ \<Rightarrow> Inr v)"
| "subscript0 _ = Inl TypeError"

text \<open>\<open>for c in v\<close>: the characters of a string, the items of a list, the keys of a dict.\<close>

fun iter :: "yaml \<Rightarrow> py_exn + yaml list" where
  "iter (YStr s) = Inr (map (\<lambda>c. YStr [c]) s)"
| "iter (YList xs) = Inr xs"
| "iter (YMap kvs) = Inr (map fst kvs)"
| "iter _ = Inl TypeError"

text \<open>
  \<open>s.islower()\<close>: there is a cased character and no cased character is upper case.
  \<open>s.isdigit()\<close>: there is a character and all are digits.
\<close>

definition str_islower :: "string \<Rightarrow> bool" where
  "str_islower s = (list_ex c_islower s \<and> \<not> list_ex c_isupper s)"

definition str_isdigit :: "string \<Rightarrow> bool" where
  "str_isdigit s = (s \<noteq> [] \<and> list_all c_isdigit s)"

fun islower :: "yaml \<Rightarrow> py_exn + bool" where
  "islower (YStr s) = Inr (str_islower s)"
| "islower _ = Inl AttributeError"

text \<open>\<open>c.islower() or c.isdigit() or c == '-'\<close>.\<close>

fun id_char_ok :: "yaml \<Rightarrow> py_exn + bool" where
  "id_char_ok (YStr s) = Inr (str_islower s \<or> str_isdigit s \<or> s = ''-'')"
| "id_char_ok _ = Inl AttributeError"

text \<open>\<open>all(... for c in ...)\<close> stops at the first item that is false or raises.\<close>

fun all_id_chars_ok :: "yaml list \<Rightarrow> py_exn + bool" where
  "all_id_chars_ok [] = Inr True"
| "all_id_chars_ok (c # cs) =
     and_then (id_char_ok c) (\<lambda>ok. if ok then all_id_chars_ok cs else Inr False)"

definition is_valid_skill_id :: "yaml \<Rightarrow> py_exn + bool" where
  "is_valid_skill_id skill_id =
     (if \<not> truthy skill_id then Inr False
      else
        and_then (subscript0 skill_id) (\<lambda>first.
        and_then (islower first) (\<lambda>first_lower.
          if \<not> first_lower then Inr False
          else and_then (iter skill_id) all_id_chars_ok)))"

subsection \<open>The environment\<close>

text \<open>
  Two libraries decide what the validator does and are not part of the repository:
  PyYAML (\<open>HAS_YAML\<close> says whether it could be imported; when it could not, the module
  prints \<open>[WARN] PyYAML not installed. Using basic validation only.\<close>; \<open>safe_load\<close> is
  \<open>yaml.safe_load\<close>, with \<open>Inl\<close> the message of a \<open>yaml.YAMLError\<close>) and
  \<open>datetime.fromisoformat\<close> (\<open>True\<close> when it returns, \<open>False\<close> when it raises
  \<open>ValueError\<close>). They are parameters of the model.
\<close>

record env =
  HAS_YAML :: bool
  safe_load :: "string \<Rightarrow> string + yaml"
  fromisoformat :: "string \<Rightarrow> bool"

definition REQUIRED_FIELDS :: "string list" where
  "REQUIRED_FIELDS =
     [''id'', ''name'', ''description'', ''category'', ''tags'', ''tool_refs'',
      ''workflow_refs'', ''visibility'', ''version'', ''created_at'', ''updated_at'']"

definition VALID_VISIBILITY :: "string set" where
  "VALID_VISIBILITY = {''public'', ''private''}"

fun validate_timestamp :: "env \<Rightarrow> yaml \<Rightarrow> py_exn + bool" where
  "validate_timestamp env (YStr timestamp_str) =
     Inr (fromisoformat env (replace ''Z'' ''+00:00'' timestamp_str))"
| "validate_timestamp env _ = Inl AttributeError"

subsection \<open>Dictionary operations\<close>

text \<open>\<open>field in frontmatter\<close>, \<open>frontmatter[field]\<close> and \<open>frontmatter.get(field, fallback)\<close>.\<close>

definition has_key :: "(yaml \<times> yaml) list \<Rightarrow> string \<Rightarrow> bool" where
  "has_key frontmatter field = list_ex (\<lambda>(k, v). eq_str k field) frontmatter"

definition get :: "(yaml \<times> yaml) list \<Rightarrow> string \<Rightarrow> yaml \<Rightarrow> yaml" where
  "get frontmatter field fallback =
     (case filter (\<lambda>(k, v). eq_str k field) frontmatter of
        [] \<Rightarrow> fallback
      | (k, v) # _ \<Rightarrow> v)"

definition getitem :: "(yaml \<times> yaml) list \<Rightarrow> string \<Rightarrow> py_exn + yaml" where
  "getitem frontmatter field =
     (if has_key frontmatter field then Inr (get frontmatter field YNull) else Inl KeyError)"

text \<open>\<open>v not in VALID_VISIBILITY\<close> hashes \<open>v\<close>, which a list or a dict refuses.\<close>

fun not_in_valid_visibility :: "yaml \<Rightarrow> py_exn + bool" where
  "not_in_valid_visibility (YList xs) = Inl TypeError"
| "not_in_valid_visibility (YMap kvs) = Inl TypeError"
| "not_in_valid_visibility (YStr s) = Inr (s \<notin> VALID_VISIBILITY)"
| "not_in_valid_visibility _ = Inr True"

text \<open>\<open>sub in v\<close> for a string \<open>sub\<close>, and \<open>len(v)\<close>.\<close>

fun contains :: "yaml \<Rightarrow> string \<Rightarrow> py_exn + bool" where
  "contains (YStr s) sub = Inr (sublist sub s)"
| "contains (YList xs) sub = Inr (list_ex (\<lambda>x. eq_str x sub) xs)"
| "contains (YMap kvs) sub = Inr (list_ex (\<lambda>(k, v). eq_str k sub) kvs)"
| "contains _ sub = Inl TypeError"

fun len :: "yaml \<Rightarrow> py_exn + nat" where
  "len (YStr s) = Inr (length s)"
| "len (YList xs) = Inr (length xs)"
| "len (YMap kvs) = Inr (length kvs)"
| "len _ = Inl TypeError"

fun is_list :: "yaml \<Rightarrow> bool" where
  "is_list (YList xs) = True"
| "is_list _ = False"

subsection \<open>Findings and verdicts\<close>

text \<open>
  A finding is one entry of the lists \<open>errors\<close> and \<open>warnings\<close> (or one \<open>[WARN]\<close> line of
  the basic validation), named by its text and carrying the values the text
  interpolates. A verdict is one way \<open>validate_skill\<close> returns, with what it prints on
  that way: \<open>Fatal\<close> prints one \<open>[ERROR]\<close> line and returns \<open>False\<close>; \<open>BasicOk\<close> prints
  \<open>[OK] Basic validation passed for: ...\<close>, the \<open>[INFO]\<close> line that asks to install PyYAML
  for full validation and the warnings, and returns \<open>True\<close>; \<open>Invalid\<close> prints
  \<open>[ERROR] Validation failed:\<close> and the errors and returns \<open>False\<close>; \<open>Valid\<close> prints
  \<open>[OK] Skill structure is valid: ...\<close>, the warnings and the fields, and returns \<open>True\<close>.
\<close>

datatype fatal =
    NotExist
  | NotDir
  | NoSkillMd
  | CannotRead io_error
  | NoFrontmatterStart
  | BadFrontmatterFormat
  | InvalidYaml string
  | NotObject

datatype finding =
    MissingField string
  | IdMismatch yaml string
  | InvalidIdFormat yaml
  | InvalidVisibility yaml
  | InvalidTimestamp string yaml
  | NotArray string
  | BodyEmpty
  | BodyShort
  | TodoMarkers nat
  | DescriptionTodo
  | DescriptionShort

datatype shown = Items nat | Text string | Other yaml

datatype verdict =
    Fatal fatal
  | BasicOk string "finding list"
  | Invalid "finding list"
  | Valid string "finding list" "(string \<times> shown) list"

fun returns :: "verdict \<Rightarrow> bool" where
  "returns (Fatal f) = False"
| "returns (BasicOk skill_name warnings) = True"
| "returns (Invalid errors) = False"
| "returns (Valid skill_name warnings summary) = True"

fun show_field :: "yaml \<Rightarrow> shown" where
  "show_field (YList xs) = Items (length xs)"
| "show_field (YStr s) = (if length s > 50 then Text (take 50 s @ ''...'') else Text s)"
| "show_field v = Other v"

subsection \<open>\<open>validate_skill\<close>\<close>

text \<open>The branch taken when PyYAML is missing: the warnings it prints.\<close>

definition basic_checks :: "string \<Rightarrow> finding list" where
  "basic_checks body =
     (if body = [] then [BodyEmpty] else if length body < 100 then [BodyShort] else []) @
     (let todo_count = count ''TODO'' body + count ''[TODO'' body
      in if todo_count > 0 then [TodoMarkers todo_count] else [])"

text \<open>
  The part of \<open>validate_skill\<close> after the frontmatter is known to be a dict. The checks
  run in the order of the source, an exception ends the run, and the two lists are put
  together in the order of the \<open>append\<close> calls.
\<close>

definition check_frontmatter ::
  "env \<Rightarrow> string \<Rightarrow> (yaml \<times> yaml) list \<Rightarrow> string \<Rightarrow> py_exn + verdict" where
  "check_frontmatter env skill_name frontmatter body =
     (let missing = [MissingField field. field \<leftarrow> REQUIRED_FIELDS, \<not> has_key frontmatter field]
      in if missing \<noteq> [] then Inr (Invalid missing)
      else
        and_then (getitem frontmatter ''id'') (\<lambda>skill_id.
        and_then (is_valid_skill_id skill_id) (\<lambda>id_ok.
        and_then (getitem frontmatter ''visibility'') (\<lambda>visibility.
        and_then (not_in_valid_visibility visibility) (\<lambda>visibility_bad.
        and_then (getitem frontmatter ''created_at'') (\<lambda>created_at.
        and_then (validate_timestamp env created_at) (\<lambda>created_ok.
        and_then (getitem frontmatter ''updated_at'') (\<lambda>updated_at.
        and_then (validate_timestamp env updated_at) (\<lambda>updated_ok.
        and_then (getitem frontmatter ''tags'') (\<lambda>tags.
        and_then (getitem frontmatter ''tool_refs'') (\<lambda>tool_refs.
        and_then (getitem frontmatter ''workflow_refs'') (\<lambda>workflow_refs.
        let description = get frontmatter ''description'' (YStr []);
            todo_count = count ''TODO'' body + count ''[TODO'' body
        in
        and_then (and_then (contains description ''TODO'')
                    (\<lambda>found. if found then Inr True else contains description ''[TODO''))
          (\<lambda>description_todo.
        and_then (len description) (\<lambda>description_len.
        let errors =
              (if \<not> eq_str skill_id skill_name then [IdMismatch skill_id skill_name] else []) @
              (if \<not> id_ok then [InvalidIdFormat skill_id] else []) @
              (if visibility_bad then [InvalidVisibility visibility] else []) @
              (if \<not> created_ok then [InvalidTimestamp ''created_at'' created_at] else []) @
              (if \<not> updated_ok then [InvalidTimestamp ''updated_at'' updated_at] else []) @
              (if \<not> is_list tags then [NotArray ''tags''] else []) @
              (if \<not> is_list tool_refs then [NotArray ''tool_refs''] else []) @
              (if \<not> is_list workflow_refs then [NotArray ''workflow_refs''] else []) @
              (if body = [] then [BodyEmpty] else []);
            warnings =
              (if body \<noteq> [] \<and> length body < 100 then [BodyShort] else []) @
              (if todo_count > 0 then [TodoMarkers todo_count] else []) @
              (if description_todo then [DescriptionTodo] else []) @
              (if description_len < 50 then [DescriptionShort] else [])
        in if errors \<noteq> [] then Inr (Invalid errors)
           else Inr (Valid skill_name warnings
                  (map (\<lambda>field. (field, show_field (get frontmatter field YNull)))
                     REQUIRED_FIELDS))))))))))))))))"

text \<open>
  \<open>validate_skill\<close> itself, in three parts: from the two stripped parts on
  (\<open>if not HAS_YAML\<close> and what follows), from the text of the document on
  (\<open>content.startswith\<close> and the split), and from the path on.
\<close>

definition validate_parts :: "env \<Rightarrow> string \<Rightarrow> string \<Rightarrow> string \<Rightarrow> py_exn + verdict" where
  "validate_parts env skill_name frontmatter_str body =
     (if \<not> HAS_YAML env then Inr (BasicOk skill_name (basic_checks body))
      else
        (case safe_load env frontmatter_str of
           Inl e \<Rightarrow> Inr (Fatal (InvalidYaml e))
         | Inr (YMap frontmatter) \<Rightarrow> check_frontmatter env skill_name frontmatter body
         | Inr _ \<Rightarrow> Inr (Fatal NotObject)))"

definition validate_content :: "env \<Rightarrow> string \<Rightarrow> string \<Rightarrow> py_exn + verdict" where
  "validate_content env skill_name content =
     (if \<not> prefix ''---'' content then Inr (Fatal NoFrontmatterStart)
      else
        (let parts = split_max ''---'' 2 content
         in if length parts < 3 then Inr (Fatal BadFrontmatterFormat)
            else
              (let frontmatter_str = strip (parts ! 1);
                   body = strip (parts ! 2)
               in validate_parts env skill_name frontmatter_str body)))"

definition validate_skill :: "env \<Rightarrow> fs \<Rightarrow> path \<Rightarrow> py_exn + verdict" where
  "validate_skill env fs skill_path =
     (if \<not> exists fs skill_path then Inr (Fatal NotExist)
      else if \<not> is_dir fs skill_path then Inr (Fatal NotDir)
      else
        (let skill_name = path_name skill_path;
             skill_md = skill_path @ [''SKILL.md'']
         in if \<not> exists fs skill_md then Inr (Fatal NoSkillMd)
            else
              (case read_text fs skill_md of
                 Inl e \<Rightarrow> Inr (Fatal (CannotRead e))
               | Inr content \<Rightarrow> validate_content env skill_name content)))"

text \<open>
  \<open>main\<close> of \<open>validate_skill.py\<close>: the exit status. An exception that nothing catches
  ends the process with status 1.
\<close>

definition validate_main :: "env \<Rightarrow> fs \<Rightarrow> path \<Rightarrow> nat" where
  "validate_main env fs skill_path =
     (case validate_skill env fs skill_path of
        Inl e \<Rightarrow> 1
      | Inr v \<Rightarrow> if returns v then 0 else 1)"

section \<open>Definitions in the words of the specification\<close>


section \<open>Reading verdicts, and the documents of the examples\<close>

text \<open>The list \<open>errors\<close> and the list \<open>warnings\<close> that a verdict prints.\<close>

fun errors_of :: "verdict \<Rightarrow> finding list" where
  "errors_of (Invalid errors) = errors"
| "errors_of v = []"

fun warnings_of :: "verdict \<Rightarrow> finding list" where
  "warnings_of (BasicOk skill_name warnings) = warnings"
| "warnings_of (Valid skill_name warnings summary) = warnings"
| "warnings_of v = []"

text \<open>
  What a YAML loader makes of the frontmatter that \<^const>\<open>TEMPLATE_FRONTMATTER\<close> writes,
  given the values \<open>id_value\<close> and \<open>name_value\<close> that it resolves the plain scalars after
  \<open>id:\<close> and \<open>name:\<close> to. The bracketed \<open>[TODO: ...]\<close> entries are flow sequences, whose
  first item is the one-pair mapping from \<open>TODO\<close>, and the quoted scalars are strings.
\<close>

definition template_mapping :: "yaml \<Rightarrow> yaml \<Rightarrow> string \<Rightarrow> (yaml \<times> yaml) list" where
  "template_mapping id_value name_value timestamp =
     [(YStr ''id'', id_value),
      (YStr ''name'', name_value),
      (YStr ''description'',
         YList [YMap [(YStr ''TODO'', YStr (''Describe what this skill does and WHEN to use it. '' @
                  ''This is critical for skill triggering. Include specific scenarios''))],
                YStr ''file types'', YStr ''or tasks that should trigger this skill.'']),
      (YStr ''category'',
         YList [YMap [(YStr ''TODO'', YStr ''e.g.'')], YStr ''development'', YStr ''document'',
                YStr ''system'', YStr ''etc.'']),
      (YStr ''tags'',
         YList [YList [YMap [(YStr ''TODO'', YStr ''tag1'')]],
                YList [YMap [(YStr ''TODO'', YStr ''tag2'')]]]),
      (YStr ''tool_refs'', YList []),
      (YStr ''workflow_refs'', YList []),
      (YStr ''visibility'', YStr ''public''),
      (YStr ''version'', YStr ''1.0.0''),
      (YStr ''created_at'', YStr timestamp),
      (YStr ''updated_at'', YStr timestamp)]"


text \<open>
  A complete frontmatter for the examples, as a loader returns it for a document with
  these eleven keys, all scalars but the three lists; the id, the visibility and the
  first timestamp vary.
\<close>

definition example_frontmatter :: "string \<Rightarrow> string \<Rightarrow> string \<Rightarrow> (yaml \<times> yaml) list" where
  "example_frontmatter skill_id visibility created_at =
     [(YStr ''id'', YStr skill_id),
      (YStr ''name'', YStr ''Demo''),
      (YStr ''description'',
         YStr ''Shows what the validator reports for a frontmatter with all eleven keys.''),
      (YStr ''category'', YStr ''development''),
      (YStr ''tags'', YList [YStr ''demo'']),
      (YStr ''tool_refs'', YList []),
      (YStr ''workflow_refs'', YList []),
      (YStr ''visibility'', YStr visibility),
      (YStr ''version'', YStr ''1.0.0''),
      (YStr ''created_at'', YStr created_at),
      (YStr ''updated_at'', YStr ''2024-01-01T00:00:00Z'')]"

definition example_body :: string where
  "example_body =
     ''Use this skill to see the report for a body that is longer than one hundred '' @
     ''characters and holds no marker of unfinished work.''"


text \<open>
  The libraries at the inputs of the examples. \<open>datetime.fromisoformat\<close> accepts the two
  well-formed timestamps that occur (after \<open>Z\<close> is replaced) and is asked about no other
  but one with month 13, which it refuses. \<open>yaml.safe_load\<close> is asked about two
  generated frontmatters only and reads them as \<^const>\<open>template_mapping\<close> says, the id
  and the name as strings.
\<close>

definition example_env :: env where
  "example_env =
     \<lparr>HAS_YAML = True,
      safe_load = (\<lambda>s.
        if s = TEMPLATE_FRONTMATTER ''1abc'' ''1abc'' ''2024-01-09T03:04:59Z''
        then Inr (YMap (template_mapping (YStr ''1abc'') (YStr ''1abc'') ''2024-01-09T03:04:59Z''))
        else if s = TEMPLATE_FRONTMATTER ''my-skill'' ''My Skill'' ''2024-01-09T03:04:59Z''
        then Inr (YMap (template_mapping (YStr ''my-skill'') (YStr ''My Skill'')
                          ''2024-01-09T03:04:59Z''))
        else Inl ''not one of the examples''),
      fromisoformat = (\<lambda>s. s = ''2024-01-01T00:00:00+00:00'' \<or> s = ''2024-01-09T03:04:59+00:00'')\<rparr>"

definition no_yaml_env :: env where
  "no_yaml_env =
     \<lparr>HAS_YAML = False,
      safe_load = (\<lambda>s. Inl ''PyYAML is not installed''),
      fromisoformat = (\<lambda>s. s = ''2024-01-01T00:00:00+00:00'' \<or> s = ''2024-01-09T03:04:59+00:00'')\<rparr>"

section \<open>Properties of the string operations\<close>

lemma sublist2_Cons:
  "sublist [a, b] (c # cs) \<longleftrightarrow> (c = a \<and> cs \<noteq> [] \<and> hd cs = b) \<or> sublist [a, b] cs"
  by (cases cs) (auto simp: sublist_Cons_right)

lemma re_sub_run_hd:
  "s \<noteq> [] \<Longrightarrow> \<not> P (hd s) \<Longrightarrow> re_sub_run P k repl s \<noteq> [] \<and> hd (re_sub_run P k repl s) = hd s"
  by (cases s) auto

lemma dropWhile_hd_not: "dropWhile P cs \<noteq> [] \<Longrightarrow> \<not> P (hd (dropWhile P cs))"
  by (simp add: hd_dropWhile)

lemma re_sub_nonalnum_set:
  "set (re_sub_run (\<lambda>c. \<not> az09 c) 1 ''-'' s) \<subseteq> {c. az09 c \<or> c = CHR ''-''}"
  by (induction "\<lambda>c. \<not> az09 c" "1::nat" "''-''" s rule: re_sub_run.induct) auto

lemma re_sub_nonalnum_no_double:
  "\<not> sublist ''--'' (re_sub_run (\<lambda>c. \<not> az09 c) 1 ''-'' s)"
proof (induction "\<lambda>c. \<not> az09 c" "1::nat" "''-''" s rule: re_sub_run.induct)
  case 1
  then show ?case by simp
next
  case (2 c cs)
  show ?case
  proof (cases "az09 c")
    case True
    with 2 show ?thesis
      by (auto simp: sublist2_Cons az09_def ascii_lowercase_def ascii_digits_def)
  next
    case False
    let ?r = "dropWhile (\<lambda>c. \<not> az09 c) cs"
    have "re_sub_run (\<lambda>c. \<not> az09 c) 1 ''-'' ?r = [] \<or> hd (re_sub_run (\<lambda>c. \<not> az09 c) 1 ''-'' ?r) \<noteq> CHR ''-''"
    proof (cases "?r = []")
      case True show ?thesis unfolding True by simp
    next
      case False
      then have "az09 (hd ?r)" using hd_dropWhile[of "\<lambda>c. \<not> az09 c" cs] by simp
      moreover have "hd (re_sub_run (\<lambda>c. \<not> az09 c) 1 ''-'' ?r) = hd ?r"
        using re_sub_run_hd[OF False, of "\<lambda>c. \<not> az09 c"] \<open>az09 (hd ?r)\<close> by simp
      ultimately show ?thesis by (auto simp: az09_def ascii_lowercase_def ascii_digits_def)
    qed
    with 2 False show ?thesis
      by (auto simp: sublist2_Cons)
  qed
qed

lemma strip_class_sublist: "sublist (strip_class P s) s"
proof -
  have "prefix (strip_class P s) (dropWhile P s)"
    unfolding strip_class_def
    by (metis rev_rev_ident suffix_dropWhile suffix_to_prefix)
  moreover have "suffix (dropWhile P s) s" by (rule suffix_dropWhile)
  ultimately show ?thesis
    by (metis prefix_imp_sublist suffix_imp_sublist sublist_order.order_trans)
qed

lemma strip_class_set: "set (strip_class P s) \<subseteq> set s"
  using strip_class_sublist set_mono_sublist by blast

lemma strip_class_hd: "strip_class P s \<noteq> [] \<Longrightarrow> \<not> P (hd (strip_class P s))"
proof -
  assume ne: "strip_class P s \<noteq> []"
  let ?d = "dropWhile P s"
  have p: "prefix (strip_class P s) ?d"
    unfolding strip_class_def
    by (metis rev_rev_ident suffix_dropWhile suffix_to_prefix)
  with ne have "?d \<noteq> []" by (metis prefix_Nil)
  then have "\<not> P (hd ?d)" by (simp add: hd_dropWhile)
  moreover from p ne have "hd (strip_class P s) = hd ?d"
    by (auto simp: prefix_def)
  ultimately show ?thesis by simp
qed

lemma strip_class_last: "strip_class P s \<noteq> [] \<Longrightarrow> \<not> P (last (strip_class P s))"
proof -
  assume ne: "strip_class P s \<noteq> []"
  let ?d = "dropWhile P (rev (dropWhile P s))"
  from ne have "?d \<noteq> []" by (simp add: strip_class_def)
  then have "\<not> P (hd ?d)" by (simp add: hd_dropWhile)
  moreover have "last (strip_class P s) = hd ?d"
    using \<open>?d \<noteq> []\<close> by (simp add: strip_class_def last_rev)
  ultimately show ?thesis by simp
qed

lemma dropWhile_hd_id: "xs = [] \<or> \<not> P (hd xs) \<Longrightarrow> dropWhile P xs = xs"
  by (cases xs) auto

lemma strip_class_id:
  assumes "s = [] \<or> (\<not> P (hd s) \<and> \<not> P (last s))"
  shows "strip_class P s = s"
proof (cases "s = []")
  case True
  then show ?thesis by (simp add: strip_class_def)
next
  case False
  with assms have h: "\<not> P (hd s)" and l: "\<not> P (last s)" by auto
  have 1: "dropWhile P s = s" using h by (intro dropWhile_hd_id) simp
  have "hd (rev s) = last s" using False by (simp add: hd_rev)
  with l have 2: "dropWhile P (rev s) = rev s" by (intro dropWhile_hd_id) simp
  show ?thesis by (simp add: strip_class_def 1 2)
qed

lemma re_sub_hyphens_id:
  "\<not> sublist ''--'' s \<Longrightarrow> re_sub_run is_hyphen 2 ''-'' s = s"
proof (induction s)
  case Nil then show ?case by simp
next
  case (Cons c cs)
  then have ih: "re_sub_run is_hyphen 2 ''-'' cs = cs" by (simp add: sublist2_Cons)
  show ?case
  proof (cases "is_hyphen c")
    case False with ih show ?thesis by simp
  next
    case True
    with Cons.prems have "cs = [] \<or> \<not> is_hyphen (hd cs)"
      by (auto simp: sublist2_Cons is_hyphen_def)
    then have "takeWhile is_hyphen cs = []" "dropWhile is_hyphen cs = cs"
      by (cases cs; auto)+
    with True ih show ?thesis by simp
  qed
qed

lemma c_lower_fix: "az09 c \<or> c = CHR ''-'' \<Longrightarrow> c_lower c = c"
proof -
  assume "az09 c \<or> c = CHR ''-''"
  then have "c \<in> set ''abcdefghijklmnopqrstuvwxyz0123456789-''"
    by (auto simp: az09_def ascii_lowercase_def ascii_digits_def)
  then have "c \<notin> set ascii_uppercase"
    unfolding ascii_uppercase_def by auto
  then have "map_of (zip ascii_uppercase ascii_lowercase) c = None"
    by (simp add: map_of_eq_None_iff ascii_uppercase_def ascii_lowercase_def)
  then show ?thesis by (simp add: c_lower_def)
qed

lemma not_space_az09: "az09 c \<or> c = CHR ''-'' \<Longrightarrow> \<not> c_isspace c"
  by (auto simp: az09_def c_isspace_def ascii_whitespace_def ascii_lowercase_def ascii_digits_def)

lemma re_sub_nonalnum_id:
  "set s \<subseteq> {c. az09 c \<or> c = CHR ''-''} \<Longrightarrow> \<not> sublist ''--'' s \<Longrightarrow>
   re_sub_run (\<lambda>c. \<not> az09 c) 1 ''-'' s = s"
proof (induction s)
  case Nil then show ?case by simp
next
  case (Cons c cs)
  then have ih: "re_sub_run (\<lambda>c. \<not> az09 c) 1 ''-'' cs = cs" by (simp add: sublist2_Cons)
  show ?case
  proof (cases "az09 c")
    case True with ih show ?thesis by simp
  next
    case False
    with Cons.prems have c: "c = CHR ''-''" by auto
    with Cons.prems have "cs = [] \<or> az09 (hd cs)"
      by (cases cs) (auto simp: sublist2_Cons)
    then have "takeWhile (\<lambda>c. \<not> az09 c) cs = []" "dropWhile (\<lambda>c. \<not> az09 c) cs = cs"
      by (cases cs; auto)+
    with False c ih show ?thesis by simp
  qed
qed

section \<open>Properties of the normalizer\<close>

lemma prefix_single: "prefix [a] s \<longleftrightarrow> s \<noteq> [] \<and> hd s = a"
  by (cases s) auto

lemma suffix_single: "suffix [a] s \<longleftrightarrow> s \<noteq> [] \<and> last s = a"
  by (cases s rule: rev_cases) auto

lemma normalize_eq_strip:
  "normalize_skill_name s =
     strip_class is_hyphen (re_sub_run (\<lambda>c. \<not> az09 c) 1 ''-'' (lower (strip s)))"
proof -
  let ?t = "re_sub_run (\<lambda>c. \<not> az09 c) 1 ''-'' (lower (strip s))"
  have "\<not> sublist ''--'' (strip_class is_hyphen ?t)"
    using re_sub_nonalnum_no_double[of "lower (strip s)"] strip_class_sublist[of is_hyphen ?t]
    by (meson sublist_order.order_trans)
  then show ?thesis
    by (simp add: normalize_skill_name_def Let_def re_sub_hyphens_id)
qed

lemma normalize_set: "set (normalize_skill_name s) \<subseteq> {c. az09 c \<or> c = CHR ''-''}"
  unfolding normalize_eq_strip
  using strip_class_set re_sub_nonalnum_set by blast

lemma normalize_no_double: "\<not> sublist ''--'' (normalize_skill_name s)"
  unfolding normalize_eq_strip
  using re_sub_nonalnum_no_double[of "lower (strip s)"]
    strip_class_sublist[of is_hyphen "re_sub_run (\<lambda>c. \<not> az09 c) 1 ''-'' (lower (strip s))"]
  by (meson sublist_order.order_trans)

lemma normalize_ends:
  "\<not> prefix ''-'' (normalize_skill_name s)" "\<not> suffix ''-'' (normalize_skill_name s)"
  unfolding normalize_eq_strip prefix_single suffix_single
  using strip_class_hd[of is_hyphen] strip_class_last[of is_hyphen]
  by (auto simp: is_hyphen_def)

lemma normalize_fixed:
  assumes chars: "set r \<subseteq> {c. az09 c \<or> c = CHR ''-''}"
    and ends: "\<not> prefix ''-'' r" "\<not> suffix ''-'' r"
    and nodbl: "\<not> sublist ''--'' r"
  shows "normalize_skill_name r = r"
proof -
  have sp: "strip r = r"
    unfolding strip_def
  proof (rule strip_class_id, cases "r = []")
    case True then show "r = [] \<or> \<not> c_isspace (hd r) \<and> \<not> c_isspace (last r)" by simp
  next
    case False
    then have "hd r \<in> set r" "last r \<in> set r" by simp_all
    with chars show "r = [] \<or> \<not> c_isspace (hd r) \<and> \<not> c_isspace (last r)"
      using not_space_az09 by blast
  qed
  have lo: "lower r = r"
    unfolding lower_def using chars by (intro map_idI c_lower_fix) auto
  have sh: "strip_class is_hyphen r = r"
    using ends by (intro strip_class_id) (auto simp: prefix_single suffix_single is_hyphen_def)
  show ?thesis
    unfolding normalize_eq_strip sp lo re_sub_nonalnum_id[OF chars nodbl] sh ..
qed

lemma normalize_idem: "normalize_skill_name (normalize_skill_name s) = normalize_skill_name s"
  by (rule normalize_fixed[OF normalize_set normalize_ends normalize_no_double])

lemma az09_chars: "{c. az09 c \<or> c = CHR ''-''} = set (ascii_lowercase @ ascii_digits @ ''-'')"
  by (auto simp: az09_def)

text \<open>
  Claim C7. For every input string the normalizer returns a string of lowercase ASCII
  letters, digits and hyphens that neither starts nor ends with a hyphen and has no two
  hyphens in a row; \<open>My Cool Skill!!\<close> becomes \<open>my-cool-skill\<close> and \<open>  ---API---\<close> becomes \<open>api\<close>;
  and \<open>main\<close> ends with status 1 and the matching error line, before it touches the
  file system, when the result is empty or longer than 64 characters.
\<close>

theorem normalize_skill_name_shape:
  "set (normalize_skill_name s) \<subseteq> set (ascii_lowercase @ ascii_digits @ ''-'') \<and>
   \<not> prefix ''-'' (normalize_skill_name s) \<and>
   \<not> suffix ''-'' (normalize_skill_name s) \<and>
   \<not> sublist ''--'' (normalize_skill_name s) \<and>
   normalize_skill_name ''My Cool Skill!!'' = ''my-cool-skill'' \<and>
   normalize_skill_name ''  ---API---'' = ''api'' \<and>
   (normalize_skill_name s = [] \<longrightarrow>
      init_main s path raw_resources examples now fs = (1, [ErrNoLetterOrDigit], fs)) \<and>
   (length (normalize_skill_name s) > 64 \<longrightarrow>
      init_main s path raw_resources examples now fs =
        (1, [ErrTooLong (normalize_skill_name s) (length (normalize_skill_name s)) 64], fs))"
proof -
  have "set (normalize_skill_name s) \<subseteq> set (ascii_lowercase @ ascii_digits @ ''-'')"
    using normalize_set[of s] unfolding az09_chars .
  moreover have "normalize_skill_name ''My Cool Skill!!'' = ''my-cool-skill''"
    by code_simp
  moreover have "normalize_skill_name ''  ---API---'' = ''api''"
    by code_simp
  moreover have "normalize_skill_name s = [] \<longrightarrow>
      init_main s path raw_resources examples now fs = (1, [ErrNoLetterOrDigit], fs)"
    by (simp add: init_main_def)
  moreover have "length (normalize_skill_name s) > 64 \<longrightarrow>
      init_main s path raw_resources examples now fs =
        (1, [ErrTooLong (normalize_skill_name s) (length (normalize_skill_name s)) 64], fs)"
    by (auto simp: init_main_def MAX_SKILL_NAME_LENGTH_def Let_def)
  ultimately show ?thesis
    using normalize_ends[of s] normalize_no_double[of s] by blast
qed

text \<open>
  The two error cases of claim C7 at concrete names: one without a letter or digit, and
  one of 65 letters.
\<close>

theorem normalize_skill_name_shape_witness:
  "normalize_skill_name ''?!'' = [] \<and>
   init_main ''?!'' [''skills''] [] False
     \<lparr>year = 2024, month = 1, day = 9, hour = 3, minute = 4, second = 59\<rparr> Map.empty
     = (1, [ErrNoLetterOrDigit], Map.empty) \<and>
   length (normalize_skill_name (replicate 65 CHR ''a'')) > 64 \<and>
   init_main (replicate 65 CHR ''a'') [''skills''] [] False
     \<lparr>year = 2024, month = 1, day = 9, hour = 3, minute = 4, second = 59\<rparr> Map.empty
     = (1, [ErrTooLong (replicate 65 CHR ''a'') 65 64], Map.empty)"
proof -
  have e: "normalize_skill_name ''?!'' = []"
    by code_simp
  have l: "normalize_skill_name (replicate 65 CHR ''a'') = replicate 65 CHR ''a''"
    by code_simp
  show ?thesis
    using normalize_skill_name_shape[of "''?!''" "[''skills'']" "[]" False
        "\<lparr>year = 2024, month = 1, day = 9, hour = 3, minute = 4, second = 59\<rparr>" Map.empty]
      normalize_skill_name_shape[of "replicate 65 CHR ''a''" "[''skills'']" "[]" False
        "\<lparr>year = 2024, month = 1, day = 9, hour = 3, minute = 4, second = 59\<rparr>" Map.empty]
      e l
    by simp
qed

text \<open>
  Claim C8. Normalizing twice is normalizing once, and a string that satisfies the Skill
  Identifier grammar is returned unchanged.
\<close>

theorem normalize_skill_name_idempotent:
  "normalize_skill_name (normalize_skill_name s) = normalize_skill_name s \<and>
   (spec_skill_identifier t \<longrightarrow> normalize_skill_name t = t)"
proof -
  have "normalize_skill_name t = t" if "spec_skill_identifier t"
    using that unfolding spec_skill_identifier_def
    by (intro normalize_fixed) (simp_all add: az09_chars)
  then show ?thesis
    using normalize_idem by blast
qed

text \<open>Claim C8 at the identifier \<open>my-api-helper\<close>.\<close>

theorem normalize_skill_name_idempotent_witness:
  "spec_skill_identifier ''my-api-helper'' \<and>
   normalize_skill_name ''my-api-helper'' = ''my-api-helper''"
proof -
  have g: "spec_skill_identifier ''my-api-helper''"
    by (simp add: spec_skill_identifier_def ascii_lowercase_def ascii_digits_def sublist_code suffix_single)
  with normalize_skill_name_idempotent[of "[]" "''my-api-helper''"] show ?thesis
    by blast
qed

section \<open>Properties of \<open>partition\<close>, \<open>split\<close> and \<open>join\<close>\<close>

lemma str_partition_SomeD:
  "sep \<noteq> [] \<Longrightarrow> str_partition sep s = Some (b, a) \<Longrightarrow>
   s = b @ sep @ a \<and> \<not> sublist sep (b @ butlast sep)"
proof (induction s arbitrary: b)
  case Nil
  then show ?case by simp
next
  case (Cons c cs)
  show ?case
  proof (cases "prefix sep (c # cs)")
    case True
    with Cons.prems have b: "b = []" and a: "a = drop (length sep) (c # cs)" by auto
    from True have "c # cs = sep @ a" unfolding a by (auto simp: prefix_def)
    moreover have "\<not> sublist sep (butlast sep)"
      using Cons.prems(1) sublist_length_le[of sep "butlast sep"] by (cases sep) auto
    ultimately show ?thesis using b by simp
  next
    case False
    with Cons.prems obtain b' where r: "str_partition sep cs = Some (b', a)" and b: "b = c # b'"
      by (auto split: option.splits)
    from Cons.IH[OF Cons.prems(1) r] have cs: "cs = b' @ sep @ a"
      and ns: "\<not> sublist sep (b' @ butlast sep)" by auto
    have "\<not> prefix sep (c # b' @ butlast sep)"
    proof
      assume "prefix sep (c # b' @ butlast sep)"
      moreover have "prefix (c # b' @ butlast sep) (c # cs)"
        unfolding cs using Cons.prems(1)
        by (metis append_butlast_last_id append.assoc prefixI prefix_Cons same_prefix_prefix)
      ultimately show False using False by (meson prefix_order.order_trans)
    qed
    with ns show ?thesis unfolding b cs by (simp add: sublist_Cons_right)
  qed
qed

lemma str_partition_None:
  "sep \<noteq> [] \<Longrightarrow> str_partition sep s = None \<longleftrightarrow> \<not> sublist sep s"
proof (induction s)
  case Nil
  then show ?case by simp
next
  case (Cons c cs)
  then show ?case
    by (cases sep) (auto simp: sublist_Cons_right split: option.splits)
qed

lemma str_partition_SomeI:
  "sep \<noteq> [] \<Longrightarrow> \<not> sublist sep (b @ butlast sep) \<Longrightarrow>
   str_partition sep (b @ sep @ a) = Some (b, a)"
proof (induction b)
  case Nil
  then show ?case by (cases sep) auto
next
  case (Cons c b)
  have "\<not> prefix sep (c # b @ sep @ a)"
  proof
    assume p: "prefix sep (c # b @ sep @ a)"
    have "length sep \<le> length (c # b @ butlast sep)"
      using Cons.prems(1) by (cases sep) auto
    moreover have "c # b @ sep @ a = (c # b @ butlast sep) @ (last sep # a)"
      using Cons.prems(1) by (simp add: append_butlast_last_id[symmetric] del: append_butlast_last_id)
    ultimately have "prefix sep (c # b @ butlast sep)"
      using p by (metis prefix_length_prefix prefixI)
    then show False using Cons.prems(2) by (simp add: sublist_Cons_right)
  qed
  moreover have "\<not> sublist sep (b @ butlast sep)"
    using Cons.prems(2) by (simp add: sublist_Cons_right)
  ultimately show ?case using Cons.IH[OF Cons.prems(1)] by simp
qed












section \<open>Properties of the resource selection\<close>



section \<open>Properties of the split into frontmatter and body\<close>

lemma validate_skill_content:
  "is_dir fs skill_path \<Longrightarrow> node_at fs (skill_path @ [''SKILL.md'']) = Some (File content x) \<Longrightarrow>
   validate_skill env fs skill_path = validate_content env (path_name skill_path) content"
  by (simp add: validate_skill_def is_dir_def exists_def read_text_def)

lemma split_two_cuts:
  assumes "\<not> sublist ''---'' (fm @ ''--'')"
  shows "split_max ''---'' 2 (''---'' @ fm @ ''---'' @ rest) = [[], fm, rest]"
proof -
  have "str_partition ''---'' (fm @ ''---'' @ rest) = Some (fm, rest)"
    using assms by (intro str_partition_SomeI) simp_all
  then show ?thesis
    by (simp add: numeral_2_eq_2)
qed

lemma split_one_cut:
  assumes "prefix ''---'' content" "\<not> sublist ''---'' (drop 3 content)"
  shows "split_max ''---'' 2 content = [[], drop 3 content]"
proof -
  from assms(1) obtain r where c: "content = ''---'' @ r" by (auto simp: prefix_def)
  have "str_partition ''---'' r = None"
    using assms(2) unfolding c by (simp add: str_partition_None)
  then show ?thesis
    unfolding c by (simp add: numeral_2_eq_2)
qed

lemma leftmost_occurrence:
  fixes sep s :: string
  assumes "sep \<noteq> []" "sublist sep s"
  shows "\<exists>b a. s = b @ sep @ a \<and> \<not> sublist sep (b @ butlast sep)"
proof -
  from assms have "str_partition sep s \<noteq> None" by (simp add: str_partition_None)
  then obtain b a where "str_partition sep s = Some (b, a)" by auto
  from str_partition_SomeD[OF assms(1) this] show ?thesis by blast
qed

text \<open>
  Claim C10. For a skill directory whose \<open>SKILL.md\<close> holds \<open>content\<close>: a document that
  does not start with \<open>---\<close> is rejected; so is one that starts with it and has no second
  \<open>---\<close>; any other document is \<open>---\<close>, a block \<open>fm\<close> up to the leftmost further \<open>---\<close>,
  that \<open>---\<close>, and a rest. The split then gives exactly the three segments empty, \<open>fm\<close>,
  rest, whatever the rest holds, further \<open>---\<close> included, and validation goes on with
  \<open>fm\<close> as the frontmatter and the rest as the body, each trimmed of white space.
\<close>

theorem frontmatter_body_split:
  assumes "is_dir fs skill_path"
    and "node_at fs (skill_path @ [''SKILL.md'']) = Some (File content x)"
  shows "(\<not> prefix ''---'' content \<longrightarrow>
            validate_skill env fs skill_path = Inr (Fatal NoFrontmatterStart)) \<and>
         (prefix ''---'' content \<and> \<not> sublist ''---'' (drop 3 content) \<longrightarrow>
            length (split_max ''---'' 2 content) < 3 \<and>
            validate_skill env fs skill_path = Inr (Fatal BadFrontmatterFormat)) \<and>
         (prefix ''---'' content \<and> sublist ''---'' (drop 3 content) \<longrightarrow>
            (\<exists>fm rest. content = ''---'' @ fm @ ''---'' @ rest \<and>
                       \<not> sublist ''---'' (fm @ ''--''))) \<and>
         (\<forall>fm rest. content = ''---'' @ fm @ ''---'' @ rest \<and> \<not> sublist ''---'' (fm @ ''--'') \<longrightarrow>
            split_max ''---'' 2 content = [[], fm, rest] \<and>
            validate_skill env fs skill_path =
              validate_parts env (path_name skill_path) (strip fm) (strip rest))"
proof -
  note vc = validate_skill_content[OF assms, of env]
  have 1: "\<not> prefix ''---'' content \<longrightarrow>
      validate_skill env fs skill_path = Inr (Fatal NoFrontmatterStart)"
    unfolding vc by (simp add: validate_content_def)
  have 2: "prefix ''---'' content \<and> \<not> sublist ''---'' (drop 3 content) \<longrightarrow>
      length (split_max ''---'' 2 content) < 3 \<and>
      validate_skill env fs skill_path = Inr (Fatal BadFrontmatterFormat)"
    unfolding vc by (auto simp: validate_content_def split_one_cut)
  have 3: "prefix ''---'' content \<and> sublist ''---'' (drop 3 content) \<longrightarrow>
      (\<exists>fm rest. content = ''---'' @ fm @ ''---'' @ rest \<and> \<not> sublist ''---'' (fm @ ''--''))"
  proof
    assume a: "prefix ''---'' content \<and> sublist ''---'' (drop 3 content)"
    then obtain r where c: "content = ''---'' @ r" by (auto simp: prefix_def)
    with a have "sublist ''---'' r" by simp
    from leftmost_occurrence[OF _ this] obtain b a where "r = b @ ''---'' @ a"
      "\<not> sublist ''---'' (b @ ''--'')" by auto
    with c show "\<exists>fm rest. content = ''---'' @ fm @ ''---'' @ rest \<and>
        \<not> sublist ''---'' (fm @ ''--'')" by blast
  qed
  have 4: "\<forall>fm rest. content = ''---'' @ fm @ ''---'' @ rest \<and> \<not> sublist ''---'' (fm @ ''--'') \<longrightarrow>
      split_max ''---'' 2 content = [[], fm, rest] \<and>
      validate_skill env fs skill_path =
        validate_parts env (path_name skill_path) (strip fm) (strip rest)"
  proof (intro allI impI)
    fix fm rest
    assume a: "content = ''---'' @ fm @ ''---'' @ rest \<and> \<not> sublist ''---'' (fm @ ''--'')"
    then have s: "split_max ''---'' 2 content = [[], fm, rest]"
      using split_two_cuts by blast
    moreover from a have "prefix ''---'' content" by simp
    ultimately show "split_max ''---'' 2 content = [[], fm, rest] \<and>
      validate_skill env fs skill_path =
        validate_parts env (path_name skill_path) (strip fm) (strip rest)"
      unfolding vc by (simp add: validate_content_def)
  qed
  from 1 2 3 4 show ?thesis by blast
qed

text \<open>
  Claim C10 at three documents of a directory \<open>skills/demo\<close>: one without the opening
  delimiter, one without the closing one, and one whose body holds the delimiter again.
\<close>

theorem frontmatter_body_split_witness:
  "validate_skill \<lparr>HAS_YAML = False, safe_load = (\<lambda>s. Inl []), fromisoformat = (\<lambda>s. False)\<rparr>
     [[''skills'', ''demo''] \<mapsto> Dir,
      [''skills'', ''demo'', ''SKILL.md''] \<mapsto> File ''id: demo'' False]
     [''skills'', ''demo''] = Inr (Fatal NoFrontmatterStart) \<and>
   validate_skill \<lparr>HAS_YAML = False, safe_load = (\<lambda>s. Inl []), fromisoformat = (\<lambda>s. False)\<rparr>
     [[''skills'', ''demo''] \<mapsto> Dir,
      [''skills'', ''demo'', ''SKILL.md''] \<mapsto> File ''---\<newline>id: demo\<newline>'' False]
     [''skills'', ''demo''] = Inr (Fatal BadFrontmatterFormat) \<and>
   split_max ''---'' 2 ''---\<newline>id: demo\<newline>---\<newline>body --- more\<newline>'' =
     [[], ''\<newline>id: demo\<newline>'', ''\<newline>body --- more\<newline>''] \<and>
   validate_skill \<lparr>HAS_YAML = False, safe_load = (\<lambda>s. Inl []), fromisoformat = (\<lambda>s. False)\<rparr>
     [[''skills'', ''demo''] \<mapsto> Dir,
      [''skills'', ''demo'', ''SKILL.md''] \<mapsto>
        File ''---\<newline>id: demo\<newline>---\<newline>body --- more\<newline>'' False]
     [''skills'', ''demo''] =
     validate_parts \<lparr>HAS_YAML = False, safe_load = (\<lambda>s. Inl []), fromisoformat = (\<lambda>s. False)\<rparr>
       ''demo'' ''id: demo'' ''body --- more''"
proof -
  let ?env = "\<lparr>HAS_YAML = False, safe_load = (\<lambda>s. Inl []), fromisoformat = (\<lambda>s. False)\<rparr>"
  let ?p = "[''skills'', ''demo'']"
  let ?fs = "\<lambda>c. [?p \<mapsto> Dir, [''skills'', ''demo'', ''SKILL.md''] \<mapsto> File c False]"
  have d: "is_dir (?fs c) ?p" for c
    by (simp add: is_dir_def node_at_def)
  have f: "node_at (?fs c) (?p @ [''SKILL.md'']) = Some (File c False)" for c
    by (simp add: node_at_def)
  have n: "path_name ?p = ''demo''"
    by (simp add: path_name_def)
  have s1: "strip ''\<newline>id: demo\<newline>'' = ''id: demo''"
    by code_simp
  have s2: "strip ''\<newline>body --- more\<newline>'' = ''body --- more''"
    by code_simp
  have a: "validate_skill ?env (?fs ''id: demo'') ?p = Inr (Fatal NoFrontmatterStart)"
    using frontmatter_body_split[where env = ?env and content = "''id: demo''", OF d f] by simp
  have b: "validate_skill ?env (?fs ''---\<newline>id: demo\<newline>'') ?p = Inr (Fatal BadFrontmatterFormat)"
    using frontmatter_body_split[where env = ?env and content = "''---\<newline>id: demo\<newline>''", OF d f]
    by (simp add: sublist_code)
  have "split_max ''---'' 2 ''---\<newline>id: demo\<newline>---\<newline>body --- more\<newline>'' =
     [[], ''\<newline>id: demo\<newline>'', ''\<newline>body --- more\<newline>''] \<and>
     validate_skill ?env (?fs ''---\<newline>id: demo\<newline>---\<newline>body --- more\<newline>'') ?p =
       validate_parts ?env ''demo'' ''id: demo'' ''body --- more''"
    using frontmatter_body_split[where env = ?env and
        content = "''---\<newline>id: demo\<newline>---\<newline>body --- more\<newline>''", OF d f,
        THEN conjunct2, THEN conjunct2, THEN conjunct2, rule_format,
        of "''\<newline>id: demo\<newline>''" "''\<newline>body --- more\<newline>''"]
    by (simp add: sublist_code n s1 s2)
  with a b show ?thesis by simp
qed

section \<open>Properties of the generator\<close>

lemma mkdir_parents_makes_dir:
  "mkdir_parents fs p = Inr fs' \<Longrightarrow> p \<noteq> [] \<Longrightarrow> fs' p = Some Dir"
  by (auto simp: mkdir_parents_def exists_def node_at_def split: if_splits)

lemma mkdir_exist_ok_keeps:
  "mkdir_exist_ok fs p = Inr fs' \<Longrightarrow> fs q \<noteq> None \<Longrightarrow> fs' q = fs q"
  by (auto simp: mkdir_exist_ok_def node_at_def split: option.splits node.splits if_splits)

lemma write_text_other:
  "write_text fs p text = Inr fs' \<Longrightarrow> q \<noteq> p \<Longrightarrow> fs' q = fs q"
  by (auto simp: write_text_def split: option.splits node.splits)

lemma write_text_there:
  "write_text fs p text = Inr fs' \<Longrightarrow> p \<noteq> [] \<Longrightarrow> \<exists>x. fs' p = Some (File text x)"
  by (auto simp: write_text_def node_at_def split: option.splits node.splits if_splits)

lemma chmod_755_other:
  "chmod_755 fs p = Inr fs' \<Longrightarrow> q \<noteq> p \<Longrightarrow> fs' q = fs q"
  by (auto simp: chmod_755_def split: option.splits node.splits)

lemma populate_resource_keeps:
  "populate_resource resource_dir resource skill_name skill_title include_examples fs = (out, fs', r)
   \<Longrightarrow> length q \<noteq> Suc (length resource_dir) \<Longrightarrow> fs' q = fs q"
  unfolding populate_resource_def
  by (auto split: if_splits sum.splits dest!: write_text_other[where q = q] chmod_755_other[where q = q])

lemma create_resource_dirs_keeps:
  "create_resource_dirs skill_dir skill_name skill_title resources include_examples fs = (out, fs', r)
   \<Longrightarrow> fs q \<noteq> None \<Longrightarrow> length q \<le> Suc (length skill_dir) \<Longrightarrow> fs' q = fs q"
proof (induction resources arbitrary: fs out fs' r)
  case Nil
  then show ?case by simp
next
  case (Cons resource rest)
  show ?case
  proof (cases "mkdir_exist_ok fs (skill_dir @ [resource])")
    case (Inl e)
    with Cons.prems show ?thesis by simp
  next
    case (Inr fs1)
    obtain out1 fs2 r1 where p: "populate_resource (skill_dir @ [resource]) resource skill_name
        skill_title include_examples fs1 = (out1, fs2, r1)"
      by (metis prod_cases3)
    have k: "fs2 q = fs q"
      using populate_resource_keeps[OF p, of q] mkdir_exist_ok_keeps[OF Inr, of q] Cons.prems(2,3)
      by simp
    show ?thesis
    proof (cases r1)
      case (Some e)
      with Cons.prems(1) Inr p k show ?thesis by simp
    next
      case None
      obtain out2 fs3 r2 where c: "create_resource_dirs skill_dir skill_name skill_title rest
          include_examples fs2 = (out2, fs3, r2)"
        by (metis prod_cases3)
      with Cons.prems(1) Inr p None have "fs' = fs3" by simp
      moreover have "fs3 q = fs2 q"
        using Cons.IH[OF c] k Cons.prems(2,3) by simp
      ultimately show ?thesis using k by simp
    qed
  qed
qed

lemma init_skill_success:
  assumes "init_skill skill_name path resources include_examples now fs = (Some d, out, fs')"
  shows "d = path @ [skill_name]"
    and "fs' (path @ [skill_name]) = Some Dir"
    and "\<exists>x. fs' (path @ [skill_name, ''SKILL.md'']) =
           Some (File (SKILL_TEMPLATE skill_name (title_case_skill_name skill_name) (strftime now)) x)"
proof -
  let ?d = "path @ [skill_name]"
  from assms obtain fs1 where m: "mkdir_parents fs ?d = Inr fs1"
    by (auto simp: init_skill_def Let_def split: if_splits sum.splits)
  from assms m obtain fs2 where w: "write_text fs1 (?d @ [''SKILL.md''])
      (SKILL_TEMPLATE skill_name (title_case_skill_name skill_name) (strftime now)) = Inr fs2"
    by (auto simp: init_skill_def Let_def split: if_splits sum.splits)
  obtain out3 fs3 r3 where c: "(if resources \<noteq> []
      then create_resource_dirs ?d skill_name (title_case_skill_name skill_name)
             resources include_examples fs2
      else ([], fs2, None)) = (out3, fs3, r3)"
    by (metis prod_cases3)
  from assms m w c have r: "r3 = None" "fs' = fs3" "d = ?d"
    by (auto simp: init_skill_def Let_def split: if_splits option.splits)
  show "d = ?d" by fact
  have d1: "fs1 ?d = Some Dir" using mkdir_parents_makes_dir[OF m] by simp
  have d2: "fs2 ?d = Some Dir" using write_text_other[OF w, of ?d] d1 by simp
  from write_text_there[OF w] obtain x where
    f2: "fs2 (?d @ [''SKILL.md'']) =
      Some (File (SKILL_TEMPLATE skill_name (title_case_skill_name skill_name) (strftime now)) x)"
    by auto
  have keep: "fs3 q = fs2 q" if "fs2 q \<noteq> None" "length q \<le> Suc (length ?d)" for q
  proof (cases "resources = []")
    case True
    with c show ?thesis by simp
  next
    case False
    with c that show ?thesis by (simp add: create_resource_dirs_keeps)
  qed
  show "fs' ?d = Some Dir" using keep[of ?d] d2 r by simp
  show "\<exists>x. fs' (path @ [skill_name, ''SKILL.md'']) =
           Some (File (SKILL_TEMPLATE skill_name (title_case_skill_name skill_name) (strftime now)) x)"
    using keep[of "?d @ [''SKILL.md'']"] f2 r by auto
qed

lemma init_main_exists:
  assumes "exists fs (path @ [normalize_skill_name raw_skill_name])"
  shows "fst (init_main raw_skill_name path raw_resources examples now fs) = 1"
    and "snd (snd (init_main raw_skill_name path raw_resources examples now fs)) = fs"
  using assms
  by (auto simp: init_main_def init_skill_def Let_def split: sum.splits)

text \<open>
  Claim C6. When the target path \<open>path/skill_name\<close> exists, \<open>init_skill\<close> returns \<open>None\<close>
  after the one line that says so and leaves the file system as it was, and \<open>main\<close> ends
  with status 1 on an unchanged file system. Hence after a call of \<open>init_skill\<close> that
  succeeded, a second call for the same name and parent fails so, whatever its other
  arguments are.
\<close>

theorem init_skill_refuses_existing:
  "(exists fs (path @ [skill_name]) \<longrightarrow>
      init_skill skill_name path resources include_examples now fs =
        (None, [ErrAlreadyExists (path @ [skill_name])], fs)) \<and>
   (exists fs (path @ [normalize_skill_name raw_skill_name]) \<longrightarrow>
      fst (init_main raw_skill_name path raw_resources include_examples now fs) = 1 \<and>
      snd (snd (init_main raw_skill_name path raw_resources include_examples now fs)) = fs) \<and>
   (\<forall>d out fs'.
      init_skill skill_name path resources include_examples now fs = (Some d, out, fs') \<longrightarrow>
      init_skill skill_name path resources' include_examples' now' fs' =
        (None, [ErrAlreadyExists (path @ [skill_name])], fs'))"
proof -
  have 1: "init_skill skill_name path resources include_examples now fs =
        (None, [ErrAlreadyExists (path @ [skill_name])], fs)"
    if "exists fs (path @ [skill_name])" for resources include_examples now fs
    using that by (simp add: init_skill_def)
  have 3: "init_skill skill_name path resources' include_examples' now' fs' =
        (None, [ErrAlreadyExists (path @ [skill_name])], fs')"
    if "init_skill skill_name path resources include_examples now fs = (Some d, out, fs')"
    for d out fs'
  proof -
    from init_skill_success(2)[OF that] have "exists fs' (path @ [skill_name])"
      by (simp add: exists_def node_at_def)
    then show ?thesis by (rule 1)
  qed
  from 1 3 init_main_exists[of fs path raw_skill_name raw_resources include_examples now]
  show ?thesis by blast
qed

text \<open>
  Claim C6 on an empty file system: the first run for \<open>demo\<close> under \<open>skills\<close> succeeds, and
  a second run on the file system it leaves fails and writes nothing, through
  \<open>init_skill\<close> and through \<open>main\<close>.
\<close>

theorem init_skill_refuses_existing_witness:
  "fst (init_skill ''demo'' [''skills''] [''scripts''] True
          \<lparr>year = 2024, month = 1, day = 9, hour = 3, minute = 4, second = 59\<rparr> Map.empty)
     = Some [''skills'', ''demo''] \<and>
   init_skill ''demo'' [''skills''] [] False
       \<lparr>year = 2025, month = 2, day = 3, hour = 4, minute = 5, second = 6\<rparr>
       (snd (snd (init_skill ''demo'' [''skills''] [''scripts''] True
          \<lparr>year = 2024, month = 1, day = 9, hour = 3, minute = 4, second = 59\<rparr> Map.empty)))
     = (None, [ErrAlreadyExists [''skills'', ''demo'']],
        snd (snd (init_skill ''demo'' [''skills''] [''scripts''] True
          \<lparr>year = 2024, month = 1, day = 9, hour = 3, minute = 4, second = 59\<rparr> Map.empty))) \<and>
   fst (init_main ''Demo!'' [''skills''] [] False
       \<lparr>year = 2025, month = 2, day = 3, hour = 4, minute = 5, second = 6\<rparr>
       [[''skills'', ''demo''] \<mapsto> Dir]) = 1 \<and>
   snd (snd (init_main ''Demo!'' [''skills''] [] False
       \<lparr>year = 2025, month = 2, day = 3, hour = 4, minute = 5, second = 6\<rparr>
       [[''skills'', ''demo''] \<mapsto> Dir])) = [[''skills'', ''demo''] \<mapsto> Dir]"
proof -
  let ?now = "\<lparr>year = 2024, month = 1, day = 9, hour = 3, minute = 4, second = 59\<rparr>"
  let ?r = "init_skill ''demo'' [''skills''] [''scripts''] True ?now Map.empty"
  have ok: "fst ?r = Some [''skills'', ''demo'']"
    by (simp add: init_skill_def exists_def node_at_def mkdir_parents_def ancestors_def
        is_dir_def write_text_def Let_def upt_rec mkdir_exist_ok_def populate_resource_def
        chmod_755_def)
  then have eq: "?r = (Some [''skills'', ''demo''], fst (snd ?r), snd (snd ?r))"
    by (metis prod.collapse)
  have n: "normalize_skill_name ''Demo!'' = ''demo''"
    by code_simp
  have e: "exists [[''skills'', ''demo''] \<mapsto> Dir] ([''skills''] @ [normalize_skill_name ''Demo!''])"
    unfolding n by (simp add: exists_def node_at_def)
  show ?thesis
    using init_skill_refuses_existing[where skill_name = "''demo''" and path = "[''skills'']"
        and resources = "[''scripts'']" and include_examples = True and now = ?now
        and fs = Map.empty, THEN conjunct2, THEN conjunct2, rule_format, OF eq]
      init_skill_refuses_existing[where raw_skill_name = "''Demo!''" and path = "[''skills'']"
        and fs = "[[''skills'', ''demo''] \<mapsto> Dir]", THEN conjunct2, THEN conjunct1, rule_format, OF e]
      ok
    by simp
qed

section \<open>Properties of the validator\<close>

lemma and_then_simps:
  "and_then (Inl e) f = Inl e" "and_then (Inr x) f = f x"
  by (simp_all add: and_then_def)

lemma and_then_InrE:
  assumes "and_then r f = Inr v"
  obtains x where "r = Inr x" "f x = Inr v"
  using assms by (cases r) (simp_all add: and_then_def)

lemma verdict_ifE:
  assumes "(if E \<noteq> [] then Inr (Invalid E) else Inr (Valid n W S)) = (Inr v :: py_exn + verdict)"
  obtains "errors_of v = E" "returns v \<longleftrightarrow> errors_of v = []" "returns v \<longrightarrow> warnings_of v = W"
  using assms by (cases "E = []") auto

lemma concat_map_if: "concat (map (\<lambda>x. if P x then [f x] else []) xs) = map f (filter P xs)"
  by (induction xs) auto

lemma getitem_present: "has_key m field \<Longrightarrow> getitem m field = Inr (get m field YNull)"
  by (simp add: getitem_def)

lemma required_present:
  assumes "list_all (has_key m) REQUIRED_FIELDS"
  shows "has_key m ''id''" "has_key m ''visibility''" "has_key m ''created_at''"
    "has_key m ''updated_at''" "has_key m ''tags''" "has_key m ''tool_refs''"
    "has_key m ''workflow_refs''" "has_key m ''description''"
  using assms by (simp_all add: REQUIRED_FIELDS_def)

lemma check_frontmatter_missing:
  assumes "\<not> list_all (has_key m) REQUIRED_FIELDS"
  shows "check_frontmatter env n m body =
    Inr (Invalid (map MissingField (filter (\<lambda>f. \<not> has_key m f) REQUIRED_FIELDS)))"
proof -
  have "filter (\<lambda>f. \<not> has_key m f) REQUIRED_FIELDS \<noteq> []"
    using assms by (auto simp: filter_empty_conv list_all_iff)
  then show ?thesis
    unfolding check_frontmatter_def Let_def concat_map_if by simp
qed

lemma check_frontmatter_completeE:
  assumes "list_all (has_key m) REQUIRED_FIELDS"
    and "check_frontmatter env n m body = Inr v"
  obtains id_ok vis_bad c_ok u_ok d_todo d_len where
    "is_valid_skill_id (get m ''id'' YNull) = Inr id_ok"
    "not_in_valid_visibility (get m ''visibility'' YNull) = Inr vis_bad"
    "validate_timestamp env (get m ''created_at'' YNull) = Inr c_ok"
    "validate_timestamp env (get m ''updated_at'' YNull) = Inr u_ok"
    "errors_of v =
       (if \<not> eq_str (get m ''id'' YNull) n then [IdMismatch (get m ''id'' YNull) n] else []) @
       (if \<not> id_ok then [InvalidIdFormat (get m ''id'' YNull)] else []) @
       (if vis_bad then [InvalidVisibility (get m ''visibility'' YNull)] else []) @
       (if \<not> c_ok then [InvalidTimestamp ''created_at'' (get m ''created_at'' YNull)] else []) @
       (if \<not> u_ok then [InvalidTimestamp ''updated_at'' (get m ''updated_at'' YNull)] else []) @
       (if \<not> is_list (get m ''tags'' YNull) then [NotArray ''tags''] else []) @
       (if \<not> is_list (get m ''tool_refs'' YNull) then [NotArray ''tool_refs''] else []) @
       (if \<not> is_list (get m ''workflow_refs'' YNull) then [NotArray ''workflow_refs''] else []) @
       (if body = [] then [BodyEmpty] else [])"
    "returns v \<longleftrightarrow> errors_of v = []"
    "returns v \<Longrightarrow> body \<noteq> [] \<Longrightarrow> length body < 100 \<Longrightarrow> BodyShort \<in> set (warnings_of v)"
proof -
  have nm: "[MissingField field. field \<leftarrow> REQUIRED_FIELDS, \<not> has_key m field] = []"
    using assms(1) unfolding concat_map_if by (auto simp: filter_empty_conv list_all_iff)
  note gi = required_present[OF assms(1), THEN getitem_present]
  note A = assms(2)[unfolded check_frontmatter_def nm Let_def gi and_then_simps simp_thms if_False]
  show thesis
    using A
    apply (elim and_then_InrE)
    apply (erule verdict_ifE)
    apply (rule that)
          apply assumption
         apply assumption
        apply assumption
       apply assumption
      apply assumption
     apply assumption
    apply simp
    done
qed

text \<open>
  The claims about the checks after the parse are stated on \<^const>\<open>check_frontmatter\<close>:
  it is what \<^const>\<open>validate_skill\<close> does with a document that has its two delimiters
  and a frontmatter that PyYAML reads as a mapping.
\<close>

lemma validate_skill_post_parse:
  assumes "is_dir fs p"
    and "node_at fs (p @ [''SKILL.md'']) = Some (File (''---'' @ fm @ ''---'' @ rest) x)"
    and "\<not> sublist ''---'' (fm @ ''--'')"
    and "HAS_YAML env"
    and "safe_load env (strip fm) = Inr (YMap m)"
  shows "validate_skill env fs p = check_frontmatter env (path_name p) m (strip rest)"
proof -
  have "validate_skill env fs p =
      validate_content env (path_name p) (''---'' @ fm @ ''---'' @ rest)"
    using assms(1,2) by (rule validate_skill_content)
  also have "\<dots> = validate_parts env (path_name p) (strip fm) (strip rest)"
    using split_two_cuts[OF assms(3), of rest] by (simp add: validate_content_def)
  also have "\<dots> = check_frontmatter env (path_name p) m (strip rest)"
    using assms(4,5) by (simp add: validate_parts_def)
  finally show ?thesis .
qed

text \<open>
  The claim C4 as the specification words it fails at the empty body: with a frontmatter
  that is valid in every field, the empty body alone makes the validator return \<open>False\<close>,
  while the same frontmatter passes with the body of the examples.
\<close>

theorem empty_body_counterexample:
  "check_frontmatter example_env ''demo''
     (example_frontmatter ''demo'' ''public'' ''2024-01-01T00:00:00Z'') [] =
     Inr (Invalid [BodyEmpty]) \<and>
   map_sum id returns
     (check_frontmatter example_env ''demo''
        (example_frontmatter ''demo'' ''public'' ''2024-01-01T00:00:00Z'') example_body) =
     Inr True"
  by code_simp


text \<open>
  The claim C2 as the specification words it fails at a frontmatter that lacks \<open>name\<close> and
  has the visibility \<open>hidden\<close>: the run reports the missing field only; the visibility is
  reported once the name is there.
\<close>

theorem collect_all_counterexample:
  "check_frontmatter example_env ''demo''
     (remove1 (YStr ''name'', YStr ''Demo'')
        (example_frontmatter ''demo'' ''hidden'' ''2024-01-01T00:00:00Z'')) example_body =
     Inr (Invalid [MissingField ''name'']) \<and>
   check_frontmatter example_env ''demo''
     (example_frontmatter ''demo'' ''hidden'' ''2024-01-01T00:00:00Z'') example_body =
     Inr (Invalid [InvalidVisibility (YStr ''hidden'')])"
  by code_simp

lemma map_sum_and_then:
  "map_sum id g (and_then r f) = and_then r (\<lambda>x. map_sum id g (f x))"
  by (cases r) (simp_all add: and_then_def)

lemma map_sum_if:
  "map_sum id g (if c then a else b) = (if c then map_sum id g a else map_sum id g b)"
  by simp

lemma check_frontmatter_body:
  assumes "body \<noteq> []" "body' \<noteq> []"
  shows "map_sum id errors_of (check_frontmatter env n m body) =
         map_sum id errors_of (check_frontmatter env n m body')"
    and "map_sum id returns (check_frontmatter env n m body) =
         map_sum id returns (check_frontmatter env n m body')"
proof -
  have b: "(body = []) = False" "(body' = []) = False" using assms by simp_all
  show "map_sum id errors_of (check_frontmatter env n m body) =
         map_sum id errors_of (check_frontmatter env n m body')"
    by (simp only: check_frontmatter_def Let_def map_sum_and_then map_sum_if map_sum.simps
        errors_of.simps b if_False)
  show "map_sum id returns (check_frontmatter env n m body) =
         map_sum id returns (check_frontmatter env n m body')"
    by (simp only: check_frontmatter_def Let_def map_sum_and_then map_sum_if map_sum.simps
        returns.simps b if_False)
qed

text \<open>
  Claim C4, amended. After the frontmatter is parsed, a body that is not empty never
  decides the result: two such bodies, short or long, give the same errors, the same
  return value and the same exception, and a short one appears as the warning
  \<open>BodyShort\<close> of a passing report. An empty body is an error: the validator returns
  \<open>False\<close>, and \<open>BodyEmpty\<close> is among the errors when no required field is missing.
\<close>

theorem short_body_is_warning:
  "(body \<noteq> [] \<and> body' \<noteq> [] \<longrightarrow>
      map_sum id errors_of (check_frontmatter env n m body) =
        map_sum id errors_of (check_frontmatter env n m body') \<and>
      map_sum id returns (check_frontmatter env n m body) =
        map_sum id returns (check_frontmatter env n m body')) \<and>
   (body \<noteq> [] \<and> length body < 100 \<and> check_frontmatter env n m body = Inr v \<and> returns v \<longrightarrow>
      BodyShort \<in> set (warnings_of v)) \<and>
   (check_frontmatter env n m [] = Inr w \<longrightarrow>
      \<not> returns w \<and> (list_all (has_key m) REQUIRED_FIELDS \<longrightarrow> BodyEmpty \<in> set (errors_of w)))"
proof -
  have 2: "BodyShort \<in> set (warnings_of v)"
    if "body \<noteq> []" "length body < 100" "check_frontmatter env n m body = Inr v" "returns v"
  proof (cases "list_all (has_key m) REQUIRED_FIELDS")
    case True
    from True that(3) show ?thesis
      by (rule check_frontmatter_completeE) (use that in blast)
  next
    case False
    from check_frontmatter_missing[OF False, of env n body] that(3,4) show ?thesis by simp
  qed
  have 3: "\<not> returns w \<and> (list_all (has_key m) REQUIRED_FIELDS \<longrightarrow> BodyEmpty \<in> set (errors_of w))"
    if "check_frontmatter env n m [] = Inr w"
  proof (cases "list_all (has_key m) REQUIRED_FIELDS")
    case True
    from True that show ?thesis
      by (rule check_frontmatter_completeE) simp
  next
    case False
    from check_frontmatter_missing[OF False, of env n "[]"] that show ?thesis
      using False by auto
  qed
  from check_frontmatter_body[of body body' env n m] 2 3 show ?thesis by blast
qed

text \<open>
  Claim C4 at the frontmatter of the examples: a body of five characters passes with the
  warning, as the long body passes, and the empty body fails.
\<close>

theorem short_body_is_warning_witness:
  "map_sum id returns
     (check_frontmatter example_env ''demo''
        (example_frontmatter ''demo'' ''public'' ''2024-01-01T00:00:00Z'') ''short'') =
     Inr True \<and>
   BodyShort \<in> set (warnings_of (Valid ''demo'' [BodyShort]
     (map (\<lambda>field. (field, show_field
        (get (example_frontmatter ''demo'' ''public'' ''2024-01-01T00:00:00Z'') field YNull)))
       REQUIRED_FIELDS))) \<and>
   BodyEmpty \<in> set (errors_of (Invalid [BodyEmpty]))"
proof -
  let ?m = "example_frontmatter ''demo'' ''public'' ''2024-01-01T00:00:00Z''"
  let ?v = "Valid ''demo'' [BodyShort] (map (\<lambda>field. (field, show_field (get ?m field YNull)))
       REQUIRED_FIELDS)"
  have l: "map_sum id returns (check_frontmatter example_env ''demo'' ?m example_body) = Inr True"
    by code_simp
  have s: "check_frontmatter example_env ''demo'' ?m ''short'' = Inr ?v"
    by code_simp
  have e: "check_frontmatter example_env ''demo'' ?m [] = Inr (Invalid [BodyEmpty])"
    by code_simp
  have p: "list_all (has_key ?m) REQUIRED_FIELDS"
    by code_simp
  have b: "example_body \<noteq> []"
    by (simp add: example_body_def)
  note t = short_body_is_warning[where env = example_env and n = "''demo''" and m = ?m]
  from t[where body = "''short''" and body' = example_body] l b
  have 1: "map_sum id returns (check_frontmatter example_env ''demo'' ?m ''short'') = Inr True"
    by simp
  from t[where body = "''short''" and v = ?v] s
  have 2: "BodyShort \<in> set (warnings_of ?v)"
    by simp
  from t[where w = "Invalid [BodyEmpty]"] e p
  have 3: "BodyEmpty \<in> set (errors_of (Invalid [BodyEmpty]))"
    by blast
  from 1 2 3 show ?thesis by blast
qed







text \<open>
  Claim C2, amended. For a frontmatter that is a mapping: when required fields are
  missing, the report is the list of all of them, in the order of \<open>REQUIRED_FIELDS\<close>, and
  nothing else is checked in that run. When none is missing and no check raises, one
  error list holds every constraint that is violated: the id differs from the folder
  name, the id format, the visibility, each of the two timestamps, each of the three
  fields that must be lists, and the empty body; the validator returns \<open>True\<close> exactly
  when that list is empty.
\<close>

theorem collect_all:
  "(\<not> list_all (has_key m) REQUIRED_FIELDS \<longrightarrow>
      check_frontmatter env n m body =
        Inr (Invalid (map MissingField (filter (\<lambda>f. \<not> has_key m f) REQUIRED_FIELDS)))) \<and>
   (list_all (has_key m) REQUIRED_FIELDS \<and> check_frontmatter env n m body = Inr v \<longrightarrow>
      (IdMismatch (get m ''id'' YNull) n \<in> set (errors_of v) \<longleftrightarrow>
         \<not> eq_str (get m ''id'' YNull) n) \<and>
      (InvalidIdFormat (get m ''id'' YNull) \<in> set (errors_of v) \<longleftrightarrow>
         is_valid_skill_id (get m ''id'' YNull) = Inr False) \<and>
      (InvalidVisibility (get m ''visibility'' YNull) \<in> set (errors_of v) \<longleftrightarrow>
         not_in_valid_visibility (get m ''visibility'' YNull) = Inr True) \<and>
      (\<forall>f \<in> {''created_at'', ''updated_at''}.
         InvalidTimestamp f (get m f YNull) \<in> set (errors_of v) \<longleftrightarrow>
           validate_timestamp env (get m f YNull) = Inr False) \<and>
      (\<forall>f \<in> {''tags'', ''tool_refs'', ''workflow_refs''}.
         NotArray f \<in> set (errors_of v) \<longleftrightarrow> \<not> is_list (get m f YNull)) \<and>
      (BodyEmpty \<in> set (errors_of v) \<longleftrightarrow> body = []) \<and>
      (returns v \<longleftrightarrow> errors_of v = []))"
proof -
  have 2: "(IdMismatch (get m ''id'' YNull) n \<in> set (errors_of v) \<longleftrightarrow>
         \<not> eq_str (get m ''id'' YNull) n) \<and>
      (InvalidIdFormat (get m ''id'' YNull) \<in> set (errors_of v) \<longleftrightarrow>
         is_valid_skill_id (get m ''id'' YNull) = Inr False) \<and>
      (InvalidVisibility (get m ''visibility'' YNull) \<in> set (errors_of v) \<longleftrightarrow>
         not_in_valid_visibility (get m ''visibility'' YNull) = Inr True) \<and>
      (\<forall>f \<in> {''created_at'', ''updated_at''}.
         InvalidTimestamp f (get m f YNull) \<in> set (errors_of v) \<longleftrightarrow>
           validate_timestamp env (get m f YNull) = Inr False) \<and>
      (\<forall>f \<in> {''tags'', ''tool_refs'', ''workflow_refs''}.
         NotArray f \<in> set (errors_of v) \<longleftrightarrow> \<not> is_list (get m f YNull)) \<and>
      (BodyEmpty \<in> set (errors_of v) \<longleftrightarrow> body = []) \<and>
      (returns v \<longleftrightarrow> errors_of v = [])"
    if "list_all (has_key m) REQUIRED_FIELDS" "check_frontmatter env n m body = Inr v"
    using that
  proof (rule check_frontmatter_completeE)
    fix id_ok vis_bad c_ok u_ok
    assume "is_valid_skill_id (get m ''id'' YNull) = Inr id_ok"
      "not_in_valid_visibility (get m ''visibility'' YNull) = Inr vis_bad"
      "validate_timestamp env (get m ''created_at'' YNull) = Inr c_ok"
      "validate_timestamp env (get m ''updated_at'' YNull) = Inr u_ok"
      and e: "errors_of v =
       (if \<not> eq_str (get m ''id'' YNull) n then [IdMismatch (get m ''id'' YNull) n] else []) @
       (if \<not> id_ok then [InvalidIdFormat (get m ''id'' YNull)] else []) @
       (if vis_bad then [InvalidVisibility (get m ''visibility'' YNull)] else []) @
       (if \<not> c_ok then [InvalidTimestamp ''created_at'' (get m ''created_at'' YNull)] else []) @
       (if \<not> u_ok then [InvalidTimestamp ''updated_at'' (get m ''updated_at'' YNull)] else []) @
       (if \<not> is_list (get m ''tags'' YNull) then [NotArray ''tags''] else []) @
       (if \<not> is_list (get m ''tool_refs'' YNull) then [NotArray ''tool_refs''] else []) @
       (if \<not> is_list (get m ''workflow_refs'' YNull) then [NotArray ''workflow_refs''] else []) @
       (if body = [] then [BodyEmpty] else [])"
      and r: "returns v \<longleftrightarrow> errors_of v = []"
    then show ?thesis
      unfolding e by simp
  qed
  from 2 check_frontmatter_missing[of m env n body] show ?thesis by blast
qed

text \<open>
  Claim C2 at two frontmatters of the examples: one that breaks four constraints and has
  an empty body, and one that lacks two fields.
\<close>

theorem collect_all_witness:
  "IdMismatch (YStr ''Demo'') ''other'' \<in> set (errors_of (Invalid
     [IdMismatch (YStr ''Demo'') ''other'', InvalidIdFormat (YStr ''Demo''),
      InvalidVisibility (YStr ''hidden''),
      InvalidTimestamp ''created_at'' (YStr ''2024-13-01T00:00:00Z''), BodyEmpty])) \<and>
   check_frontmatter example_env ''other''
     (example_frontmatter ''Demo'' ''hidden'' ''2024-13-01T00:00:00Z'') [] =
     Inr (Invalid
       [IdMismatch (YStr ''Demo'') ''other'', InvalidIdFormat (YStr ''Demo''),
        InvalidVisibility (YStr ''hidden''),
        InvalidTimestamp ''created_at'' (YStr ''2024-13-01T00:00:00Z''), BodyEmpty]) \<and>
   check_frontmatter example_env ''demo''
     (remove1 (YStr ''name'', YStr ''Demo'') (remove1 (YStr ''version'', YStr ''1.0.0'')
        (example_frontmatter ''demo'' ''public'' ''2024-01-01T00:00:00Z''))) example_body =
     Inr (Invalid [MissingField ''name'', MissingField ''version''])"
proof -
  let ?m = "example_frontmatter ''Demo'' ''hidden'' ''2024-13-01T00:00:00Z''"
  let ?v = "Invalid
       [IdMismatch (YStr ''Demo'') ''other'', InvalidIdFormat (YStr ''Demo''),
        InvalidVisibility (YStr ''hidden''),
        InvalidTimestamp ''created_at'' (YStr ''2024-13-01T00:00:00Z''), BodyEmpty]"
  let ?m' = "remove1 (YStr ''name'', YStr ''Demo'') (remove1 (YStr ''version'', YStr ''1.0.0'')
        (example_frontmatter ''demo'' ''public'' ''2024-01-01T00:00:00Z''))"
  have p: "list_all (has_key ?m) REQUIRED_FIELDS"
    by code_simp
  have c: "check_frontmatter example_env ''other'' ?m [] = Inr ?v"
    by code_simp
  have i: "get ?m ''id'' YNull = YStr ''Demo''" "\<not> eq_str (YStr ''Demo'') ''other''"
    by code_simp+
  have q: "\<not> list_all (has_key ?m') REQUIRED_FIELDS"
    by code_simp
  have f: "map MissingField (filter (\<lambda>f. \<not> has_key ?m' f) REQUIRED_FIELDS) =
      [MissingField ''name'', MissingField ''version'']"
    by code_simp
  from collect_all[where m = ?m and env = example_env and n = "''other''" and body = "[]"
      and v = ?v] p c i
  have 1: "IdMismatch (YStr ''Demo'') ''other'' \<in> set (errors_of ?v)"
    by simp
  from collect_all[where m = ?m' and env = example_env and n = "''demo''"
      and body = example_body] q
  have 2: "check_frontmatter example_env ''demo'' ?m' example_body =
      Inr (Invalid [MissingField ''name'', MissingField ''version''])"
    unfolding f by blast
  from 1 c 2 show ?thesis by blast
qed

lemma basic_checks_kinds:
  "set (basic_checks body) \<subseteq> insert BodyEmpty (insert BodyShort (range TodoMarkers))"
  by (auto simp: basic_checks_def Let_def)

lemma degraded_verdict:
  assumes "\<not> HAS_YAML env"
  shows "(\<exists>f. validate_skill env fs p = Inr (Fatal f)) \<or>
         (\<exists>body. validate_skill env fs p = Inr (BasicOk (path_name p) (basic_checks body)))"
  using assms
  by (auto simp: validate_skill_def validate_content_def validate_parts_def Let_def
      split: sum.splits)

text \<open>
  Claim C3, amended. Without PyYAML the validator never runs the schema checks: it ends
  with a fatal error of the stages before the parse or with the verdict \<open>BasicOk\<close>, never
  with \<open>Valid\<close>, with \<open>Invalid\<close> or with an exception. A document that starts with \<open>---\<close> and
  has a second \<open>---\<close> gets \<open>BasicOk\<close>, that is the return value \<open>True\<close> and the exit status
  0, whatever stands between the two delimiters, required fields or not; what it prints
  on this way are the two lines of the basic validation and the warnings about the body
  (empty, short, TODO markers), not the line of the full validation.
\<close>

theorem degraded_mode:
  "\<not> HAS_YAML env \<longrightarrow>
     (\<forall>n w s. validate_skill env fs p \<noteq> Inr (Valid n w s)) \<and>
     (\<forall>es. validate_skill env fs p \<noteq> Inr (Invalid es)) \<and>
     (\<forall>e. validate_skill env fs p \<noteq> Inl e) \<and>
     (is_dir fs p \<and>
      node_at fs (p @ [''SKILL.md'']) = Some (File (''---'' @ fm @ ''---'' @ rest) x) \<and>
      \<not> sublist ''---'' (fm @ ''--'') \<longrightarrow>
        validate_skill env fs p = Inr (BasicOk (path_name p) (basic_checks (strip rest))) \<and>
        validate_main env fs p = 0) \<and>
     set (basic_checks body) \<subseteq> insert BodyEmpty (insert BodyShort (range TodoMarkers))"
proof
  assume d: "\<not> HAS_YAML env"
  have 1: "validate_skill env fs p = Inr (BasicOk (path_name p) (basic_checks (strip rest))) \<and>
        validate_main env fs p = 0"
    if "is_dir fs p"
      "node_at fs (p @ [''SKILL.md'']) = Some (File (''---'' @ fm @ ''---'' @ rest) x)"
      "\<not> sublist ''---'' (fm @ ''--'')"
  proof -
    have "validate_skill env fs p =
        validate_content env (path_name p) (''---'' @ fm @ ''---'' @ rest)"
      using that(1,2) by (rule validate_skill_content)
    also have "\<dots> = validate_parts env (path_name p) (strip fm) (strip rest)"
      using split_two_cuts[OF that(3), of rest] by (simp add: validate_content_def)
    also have "\<dots> = Inr (BasicOk (path_name p) (basic_checks (strip rest)))"
      using d by (simp add: validate_parts_def)
    finally show ?thesis by (simp add: validate_main_def)
  qed
  from degraded_verdict[OF d, of fs p] 1 basic_checks_kinds[of body]
  show "(\<forall>n w s. validate_skill env fs p \<noteq> Inr (Valid n w s)) \<and>
     (\<forall>es. validate_skill env fs p \<noteq> Inr (Invalid es)) \<and>
     (\<forall>e. validate_skill env fs p \<noteq> Inl e) \<and>
     (is_dir fs p \<and>
      node_at fs (p @ [''SKILL.md'']) = Some (File (''---'' @ fm @ ''---'' @ rest) x) \<and>
      \<not> sublist ''---'' (fm @ ''--'') \<longrightarrow>
        validate_skill env fs p = Inr (BasicOk (path_name p) (basic_checks (strip rest))) \<and>
        validate_main env fs p = 0) \<and>
     set (basic_checks body) \<subseteq> insert BodyEmpty (insert BodyShort (range TodoMarkers))"
    by auto
qed

text \<open>
  The claim C3 as the specification words it fails at a document whose frontmatter holds
  the key \<open>name\<close> only: without PyYAML the validator returns \<open>True\<close> and the exit status
  is 0, while the schema checks on that frontmatter report the ten missing fields.
\<close>

theorem degraded_mode_counterexample:
  "validate_skill no_yaml_env
     [[''skills'', ''demo''] \<mapsto> Dir,
      [''skills'', ''demo'', ''SKILL.md''] \<mapsto>
        File ''---\<newline>name: Demo\<newline>---\<newline>A body.\<newline>'' False]
     [''skills'', ''demo''] = Inr (BasicOk ''demo'' [BodyShort]) \<and>
   validate_main no_yaml_env
     [[''skills'', ''demo''] \<mapsto> Dir,
      [''skills'', ''demo'', ''SKILL.md''] \<mapsto>
        File ''---\<newline>name: Demo\<newline>---\<newline>A body.\<newline>'' False]
     [''skills'', ''demo''] = 0 \<and>
   check_frontmatter example_env ''demo'' [(YStr ''name'', YStr ''Demo'')] ''A body.'' =
     Inr (Invalid (map MissingField
       [''id'', ''description'', ''category'', ''tags'', ''tool_refs'', ''workflow_refs'',
        ''visibility'', ''version'', ''created_at'', ''updated_at'']))"
  by code_simp

text \<open>Claim C3 at that document.\<close>

theorem degraded_mode_witness:
  "\<not> HAS_YAML no_yaml_env \<and>
   validate_skill no_yaml_env
     [[''skills'', ''demo''] \<mapsto> Dir,
      [''skills'', ''demo'', ''SKILL.md''] \<mapsto>
        File ''---\<newline>name: Demo\<newline>---\<newline>A body.\<newline>'' False]
     [''skills'', ''demo''] = Inr (BasicOk ''demo'' (basic_checks ''A body.'')) \<and>
   validate_main no_yaml_env
     [[''skills'', ''demo''] \<mapsto> Dir,
      [''skills'', ''demo'', ''SKILL.md''] \<mapsto>
        File ''---\<newline>name: Demo\<newline>---\<newline>A body.\<newline>'' False]
     [''skills'', ''demo''] = 0"
proof -
  let ?p = "[''skills'', ''demo'']"
  let ?fs = "[?p \<mapsto> Dir,
      [''skills'', ''demo'', ''SKILL.md''] \<mapsto>
        File ''---\<newline>name: Demo\<newline>---\<newline>A body.\<newline>'' False]"
  have h: "\<not> HAS_YAML no_yaml_env"
    by (simp add: no_yaml_env_def)
  have d: "is_dir ?fs ?p"
    by (simp add: is_dir_def node_at_def)
  have f: "node_at ?fs (?p @ [''SKILL.md'']) =
      Some (File (''---'' @ ''\<newline>name: Demo\<newline>'' @ ''---'' @ ''\<newline>A body.\<newline>'') False)"
    by (simp add: node_at_def)
  have n: "\<not> sublist ''---'' (''\<newline>name: Demo\<newline>'' @ ''--'')"
    by (simp add: sublist_code)
  have s: "strip ''\<newline>A body.\<newline>'' = ''A body.''" "path_name ?p = ''demo''"
    by code_simp+
  from degraded_mode[where env = no_yaml_env and fs = ?fs and p = ?p
      and fm = "''\<newline>name: Demo\<newline>''" and rest = "''\<newline>A body.\<newline>''" and x = False] h d f n
  show ?thesis
    unfolding s by blast
qed

section \<open>Properties of the round trip\<close>













lemma strftime_ends: "strftime now \<noteq> []"
  by (simp add: strftime_def)














end
